theory Spec2Isabelle
  imports Complex_Main "HOL-Library.Multiset"
begin

section \<open>Python values and errors\<close>

text \<open>
  The exceptions that the modelled operations can raise.  \<open>NotReadyError\<close> is the error
  kind named by the specification; the source has no such class, and no operation below
  produces it.
\<close>

datatype error =
    AttributeError string
  | FileNotFoundError string
  | TypeError string
  | ParseError string
  | BuildError string
  | NotReadyError

text \<open>Values that a keyword argument of a loader can carry.\<close>

datatype pyval = PyNone | PyBool bool | PyInt int | PyStr string

fun truthy :: "pyval \<Rightarrow> bool" where
  "truthy PyNone = False"
| "truthy (PyBool b) = b"
| "truthy (PyInt i) = (i \<noteq> 0)"
| "truthy (PyStr s) = (s \<noteq> [])"

section \<open>Paths\<close>

text \<open>
  \<open>pathlib.Path\<close> and \<open>os.path.join\<close> in their POSIX flavour, as far as
  \<open>PCDDataModule.__init__\<close>, \<open>PCDDataModule.setup\<close> and the tests use them: a path is
  parsed into a root and its components, empty components and \<open>.\<close> are dropped.
\<close>

record PurePath =
  path_root :: string
  path_tail :: "string list"

fun split_sep :: "char \<Rightarrow> string \<Rightarrow> string list" where
  "split_sep c [] = [[]]"
| "split_sep c (x # xs) =
     (if x = c then [] # split_sep c xs
      else (case split_sep c xs of [] \<Rightarrow> [[x]] | w # ws \<Rightarrow> (x # w) # ws))"

definition splitroot :: "string \<Rightarrow> string" where
  "splitroot p =
     (if take 1 p \<noteq> ''/'' then ''''
      else if take 1 (drop 1 p) \<noteq> ''/'' \<or> take 1 (drop 2 p) = ''/'' then ''/''
      else ''//'')"

definition Path :: "string \<Rightarrow> PurePath" where
  "Path p = \<lparr>path_root = splitroot p,
            path_tail = filter (\<lambda>c. c \<noteq> '''' \<and> c \<noteq> ''.'') (split_sep CHR ''/'' p)\<rparr>"

definition parent :: "PurePath \<Rightarrow> PurePath" where
  "parent p = (if path_tail p = [] then p else p\<lparr>path_tail := butlast (path_tail p)\<rparr>)"

fun join_sep :: "string list \<Rightarrow> string" where
  "join_sep [] = ''''"
| "join_sep [c] = c"
| "join_sep (c # cs) = c @ ''/'' @ join_sep cs"

definition fspath :: "PurePath \<Rightarrow> string" where
  "fspath p =
     (let s = path_root p @ join_sep (path_tail p) in if s = '''' then ''.'' else s)"

definition os_path_join :: "string \<Rightarrow> string \<Rightarrow> string" where
  "os_path_join a b =
     (if take 1 b = ''/'' then b
      else if a = '''' \<or> last a = CHR ''/'' then a @ b
      else a @ ''/'' @ b)"

definition path_name :: "PurePath \<Rightarrow> string" where
  "path_name p = (if path_tail p = [] then '''' else last (path_tail p))"

text \<open>
  \<open>Path.stem\<close>: the final component without its last suffix; a leading or a trailing
  dot starts no suffix.
\<close>

definition stem_of_name :: "string \<Rightarrow> string" where
  "stem_of_name n =
     (if CHR ''.'' \<notin> set n then n
      else (let i = length n - length (takeWhile (\<lambda>c. c \<noteq> CHR ''.'') (rev n)) - 1
            in if 0 < i \<and> i < length n - 1 then take i n else n))"

definition stem :: "string \<Rightarrow> string" where
  "stem f = stem_of_name (path_name (Path f))"

section \<open>Manifests and datasets\<close>

text \<open>
  Modelled from the spec: \<open>get_names\<close> of \<open>aidsorb.data\<close>, which is not among the source
  files.  A manifest file is a serialized ordered list of structure names; the file
  system maps the path of each manifest file to the list it holds, and reading a path
  that holds none raises.
\<close>

type_synonym filesystem = "string \<rightharpoonup> string list"

definition get_names :: "filesystem \<Rightarrow> string \<Rightarrow> error + string list" where
  "get_names fs filename =
     (case fs filename of None \<Rightarrow> Inl (FileNotFoundError filename) | Some names \<Rightarrow> Inr names)"

text \<open>
  Python's slice \<open>xs[:stop]\<close>: \<open>None\<close> keeps the list, a negative stop counts from the
  end, and a stop out of range is clamped.
\<close>

definition slice_upto :: "'a list \<Rightarrow> int option \<Rightarrow> 'a list" where
  "slice_upto xs stop =
     (case stop of
        None \<Rightarrow> xs
      | Some n \<Rightarrow> if n < 0 then take (nat (int (length xs) + n)) xs else take (nat n) xs)"

text \<open>
  Modelled from the spec: \<open>PCDDataset\<close> of \<open>aidsorb.data\<close>, which is not among the source
  files.  A dataset is constructed from its manifest, the paths of the archive and of the
  label table, the key column, the label columns and the two transforms; it is a record of
  these.  The type \<open>'f\<close> is the type of transforms; \<open>None\<close> is Python's \<open>None\<close>.
\<close>

record 'f PCDDataset =
  ds_pcd_names :: "string list"
  ds_path_to_X :: string
  ds_path_to_Y :: string
  ds_index_col :: string
  ds_labels :: "string list"
  ds_transform_x :: "'f option"
  ds_transform_y :: "'f option"

definition PCDDataset_init ::
  "string list \<Rightarrow> string \<Rightarrow> string \<Rightarrow> string \<Rightarrow> string list \<Rightarrow> 'f option \<Rightarrow> 'f option \<Rightarrow>
   'f PCDDataset" where
  "PCDDataset_init pcd_names X Y icol labs tx ty =
     \<lparr>ds_pcd_names = pcd_names, ds_path_to_X = X, ds_path_to_Y = Y, ds_index_col = icol,
      ds_labels = labs, ds_transform_x = tx, ds_transform_y = ty\<rparr>"

section \<open>The data module\<close>

text \<open>
  The attributes of a \<open>PCDDataModule\<close>.  The last six do not exist on a fresh object
  (\<open>None\<close>): \<open>setup\<close> creates them.  The fields \<open>priv_*\<close> are the attributes whose
  Python name starts with an underscore.
\<close>

record 'f PCDDataModule =
  path_to_X :: string
  path_to_Y :: string
  index_col :: string
  labels :: "string list"
  train_transform_x :: "'f option"
  eval_transform_x :: "'f option"
  transform_y :: "'f option"
  train_size :: "int option"
  shuffle :: bool
  train_batch_size :: int
  eval_batch_size :: int
  config_dataloaders :: "(string \<times> pyval) list"
  priv_path_to_names :: PurePath
  priv_train_names :: "string list option"
  priv_val_names :: "string list option"
  priv_test_names :: "string list option"
  train_dataset :: "'f PCDDataset option"
  validation_dataset :: "'f PCDDataset option"
  test_dataset :: "'f PCDDataset option"

text \<open>\<open>PCDDataModule.__init__\<close>; every parameter is passed, \<open>None\<close> where Python defaults to it.\<close>

definition PCDDataModule_init ::
  "string \<Rightarrow> string \<Rightarrow> string \<Rightarrow> string list \<Rightarrow> int option \<Rightarrow> 'f option \<Rightarrow> 'f option \<Rightarrow>
   'f option \<Rightarrow> bool \<Rightarrow> int \<Rightarrow> int \<Rightarrow> (string \<times> pyval) list option \<Rightarrow> 'f PCDDataModule" where
  "PCDDataModule_init X Y icol labs tsize ttx etx ty shuf tbs ebs cfg =
     \<lparr>path_to_X = X, path_to_Y = Y, index_col = icol, labels = labs,
      train_transform_x = ttx, eval_transform_x = etx, transform_y = ty,
      train_size = tsize, shuffle = shuf,
      train_batch_size = tbs, eval_batch_size = ebs,
      config_dataloaders = (case cfg of None \<Rightarrow> [] | Some c \<Rightarrow> c),
      priv_path_to_names = parent (Path X),
      priv_train_names = None, priv_val_names = None, priv_test_names = None,
      train_dataset = None, validation_dataset = None, test_dataset = None\<rparr>"

text \<open>Reading an attribute that does not exist raises \<open>AttributeError\<close>.\<close>

definition getattr :: "string \<Rightarrow> 'a option \<Rightarrow> error + 'a" where
  "getattr name v = (case v of None \<Rightarrow> Inl (AttributeError name) | Some x \<Rightarrow> Inr x)"

definition train_names :: "'f PCDDataModule \<Rightarrow> error + string list" where
  "train_names self = getattr ''_train_names'' (priv_train_names self)"

definition val_names :: "'f PCDDataModule \<Rightarrow> error + string list" where
  "val_names self = getattr ''_val_names'' (priv_val_names self)"

definition test_names :: "'f PCDDataModule \<Rightarrow> error + string list" where
  "test_names self = getattr ''_test_names'' (priv_test_names self)"

text \<open>
  A method returns its outcome together with the object as it has left it: an exception
  keeps the assignments made before it was raised.
\<close>

type_synonym 'f outcome = "(error + unit) \<times> 'f PCDDataModule"

definition set_train_dataset :: "'f PCDDataModule \<Rightarrow> 'f outcome" where
  "set_train_dataset self =
     (case train_names self of
        Inl e \<Rightarrow> (Inl e, self)
      | Inr names \<Rightarrow>
          (Inr (), self\<lparr>train_dataset := Some
             (PCDDataset_init names (path_to_X self) (path_to_Y self) (index_col self)
                (labels self) (train_transform_x self) (transform_y self))\<rparr>))"

definition set_validation_dataset :: "'f PCDDataModule \<Rightarrow> 'f outcome" where
  "set_validation_dataset self =
     (case val_names self of
        Inl e \<Rightarrow> (Inl e, self)
      | Inr names \<Rightarrow>
          (Inr (), self\<lparr>validation_dataset := Some
             (PCDDataset_init names (path_to_X self) (path_to_Y self) (index_col self)
                (labels self) (eval_transform_x self) (transform_y self))\<rparr>))"

definition set_test_dataset :: "'f PCDDataModule \<Rightarrow> 'f outcome" where
  "set_test_dataset self =
     (case test_names self of
        Inl e \<Rightarrow> (Inl e, self)
      | Inr names \<Rightarrow>
          (Inr (), self\<lparr>test_dataset := Some
             (PCDDataset_init names (path_to_X self) (path_to_Y self) (index_col self)
                (labels self) (eval_transform_x self) (transform_y self))\<rparr>))"

text \<open>The path \<open>os.path.join(self._path_to_names, name)\<close> of a manifest file.\<close>

definition manifest_path :: "'f PCDDataModule \<Rightarrow> string \<Rightarrow> string" where
  "manifest_path self name = os_path_join (fspath (priv_path_to_names self)) name"

text \<open>The body of \<open>if stage in (None, 'fit')\<close> in \<open>setup\<close>.\<close>

definition setup_fit :: "filesystem \<Rightarrow> 'f PCDDataModule \<Rightarrow> 'f outcome" where
  "setup_fit fs self =
     (case get_names fs (manifest_path self ''train.json'') of
        Inl e \<Rightarrow> (Inl e, self)
      | Inr tr \<Rightarrow>
          (let s1 = self\<lparr>priv_train_names := Some (slice_upto tr (train_size self))\<rparr> in
           case get_names fs (manifest_path s1 ''validation.json'') of
             Inl e \<Rightarrow> (Inl e, s1)
           | Inr va \<Rightarrow>
               (let s2 = s1\<lparr>priv_val_names := Some va\<rparr> in
                case set_train_dataset s2 of
                  (Inl e, s3) \<Rightarrow> (Inl e, s3)
                | (Inr u, s3) \<Rightarrow> set_validation_dataset s3)))"

text \<open>The body of \<open>if stage in (None, 'test')\<close> in \<open>setup\<close>.\<close>

definition setup_test :: "filesystem \<Rightarrow> 'f PCDDataModule \<Rightarrow> 'f outcome" where
  "setup_test fs self =
     (case get_names fs (manifest_path self ''test.json'') of
        Inl e \<Rightarrow> (Inl e, self)
      | Inr te \<Rightarrow> set_test_dataset (self\<lparr>priv_test_names := Some te\<rparr>))"

text \<open>\<open>PCDDataModule.setup\<close> (named \<open>setup_stage\<close> here); the stage is \<open>None\<close> or a string.\<close>

definition setup_stage :: "filesystem \<Rightarrow> string option \<Rightarrow> 'f PCDDataModule \<Rightarrow> 'f outcome" where
  "setup_stage fs stage self =
     (case (if stage \<in> {None, Some ''fit''} then setup_fit fs self else (Inr (), self)) of
        (Inl e, s1) \<Rightarrow> (Inl e, s1)
      | (Inr u, s1) \<Rightarrow>
          (if stage \<in> {None, Some ''test''} then setup_test fs s1 else (Inr (), s1)))"

section \<open>Loaders\<close>

text \<open>
  \<open>torch.utils.data.DataLoader\<close> is the external batching engine.  A loader is the record
  of the arguments it was constructed with: the dataset and the other keyword arguments,
  those written in the call first, then those of the \<open>**\<close> mapping.  Python refuses a call
  in which a key of the \<open>**\<close> mapping repeats a keyword written in the call: \<open>TypeError\<close>
  (got multiple values for keyword argument), naming the first such key.  What the engine
  does with its arguments, also refusing an option it does not know, is outside the model.
\<close>

record 'f DataLoader =
  dl_dataset :: "'f PCDDataset"
  dl_kwargs :: "(string \<times> pyval) list"

definition DataLoader_init ::
  "'f PCDDataset \<Rightarrow> (string \<times> pyval) list \<Rightarrow> (string \<times> pyval) list \<Rightarrow> error + 'f DataLoader" where
  "DataLoader_init ds written cfg =
     (case find (\<lambda>k. k \<in> set (''dataset'' # map fst written)) (map fst cfg) of
        Some k \<Rightarrow> Inl (TypeError k)
      | None \<Rightarrow> Inr \<lparr>dl_dataset = ds, dl_kwargs = written @ cfg\<rparr>)"

text \<open>
  What a loader was given as batch size, and whether it shuffles: \<open>DataLoader\<close> does not
  shuffle unless its \<open>shuffle\<close> argument is given and true.
\<close>

definition dl_batch_size :: "'f DataLoader \<Rightarrow> pyval option" where
  "dl_batch_size dl = map_of (dl_kwargs dl) ''batch_size''"

definition dl_shuffle :: "'f DataLoader \<Rightarrow> bool" where
  "dl_shuffle dl = (case map_of (dl_kwargs dl) ''shuffle'' of None \<Rightarrow> False | Some v \<Rightarrow> truthy v)"

definition train_dataloader :: "'f PCDDataModule \<Rightarrow> error + 'f DataLoader" where
  "train_dataloader self =
     (case getattr ''train_dataset'' (train_dataset self) of
        Inl e \<Rightarrow> Inl e
      | Inr ds \<Rightarrow>
          DataLoader_init ds
            [(''batch_size'', PyInt (train_batch_size self)), (''shuffle'', PyBool (shuffle self))]
            (config_dataloaders self))"

definition val_dataloader :: "'f PCDDataModule \<Rightarrow> error + 'f DataLoader" where
  "val_dataloader self =
     (case getattr ''validation_dataset'' (validation_dataset self) of
        Inl e \<Rightarrow> Inl e
      | Inr ds \<Rightarrow>
          DataLoader_init ds [(''batch_size'', PyInt (eval_batch_size self))]
            (config_dataloaders self))"

definition test_dataloader :: "'f PCDDataModule \<Rightarrow> error + 'f DataLoader" where
  "test_dataloader self =
     (case getattr ''test_dataset'' (test_dataset self) of
        Inl e \<Rightarrow> Inl e
      | Inr ds \<Rightarrow>
          DataLoader_init ds [(''batch_size'', PyInt (eval_batch_size self))]
            (config_dataloaders self))"

section \<open>Building an archive\<close>

text \<open>
  Modelled from the spec: \<open>pcd_from_file\<close>, \<open>pcd_from_files\<close> and \<open>pcd_from_dir\<close> of
  \<open>aidsorb.utils\<close> (the spec's StructureReader and ArchiveBuilder), which are not among the
  source files; only their tests are.

  A structure is a list of atoms.  The parser of the file formats is external: \<open>parse\<close>
  gives the structure a file holds, or \<open>None\<close> for a file that is unrecognized or
  malformed.  A point cloud is an array with one row \<open>(x, y, z, atomic_number)\<close> per atom.
\<close>

record atom =
  atom_x :: real
  atom_y :: real
  atom_z :: real
  atom_number :: nat

type_synonym pcd = "real list list"

type_synonym parser = "string \<Rightarrow> atom list option"

definition point_of_atom :: "atom \<Rightarrow> real list" where
  "point_of_atom a = [atom_x a, atom_y a, atom_z a, real (atom_number a)]"

text \<open>
  Modelled from the spec: the arrays of the archive (numpy arrays in the tests), with the
  shape of a two-dimensional array and its last column (\<open>pcd[:, -1]\<close>).
\<close>

definition shape :: "pcd \<Rightarrow> nat \<times> nat" where
  "shape a = (length a, (case a of [] \<Rightarrow> 0 | r # rs \<Rightarrow> length r))"

definition last_column :: "pcd \<Rightarrow> real list" where
  "last_column a = map last a"

text \<open>
  Modelled from the spec: \<open>pcd_from_file\<close> (StructureReader).  Given the path of a
  structure file, produce the name (the file stem) and the point cloud; \<open>ParseError\<close> when
  the file is unrecognized or malformed.
\<close>

definition pcd_from_file :: "parser \<Rightarrow> string \<Rightarrow> error + (string \<times> pcd)" where
  "pcd_from_file parse filename =
     (case parse filename of
        None \<Rightarrow> Inl (ParseError filename)
      | Some atoms \<Rightarrow> Inr (stem filename, map point_of_atom atoms))"

text \<open>
  Modelled from the spec: the reading loop of \<open>pcd_from_files\<close>.  Each file is read in
  input order; the build aborts with \<open>BuildError\<close> at the first file that fails to parse.
\<close>

fun read_structures :: "parser \<Rightarrow> string list \<Rightarrow> error + (string \<times> pcd) list" where
  "read_structures parse [] = Inr []"
| "read_structures parse (f # fs) =
     (case pcd_from_file parse f of
        Inl e \<Rightarrow> Inl (BuildError f)
      | Inr p \<Rightarrow>
          (case read_structures parse fs of
             Inl e \<Rightarrow> Inl e
           | Inr ps \<Rightarrow> Inr (p # ps)))"

text \<open>
  Modelled from the spec: the shuffle of \<open>pcd_from_files\<close>, a single random permutation
  of a list.  \<open>rnd\<close> is the random source, and the element at position \<open>rnd k mod k\<close> of
  the \<open>k\<close> elements not yet placed comes next.
\<close>

fun random_permutation :: "(nat \<Rightarrow> nat) \<Rightarrow> 'a list \<Rightarrow> 'a list" where
  "random_permutation rnd [] = []"
| "random_permutation rnd (x # xs) =
     (let i = rnd (Suc (length xs)) mod Suc (length xs) in
        (x # xs) ! i # random_permutation rnd (take i (x # xs) @ drop (Suc i) (x # xs)))"

text \<open>
  Modelled from the spec: the archive file (an \<open>.npz\<close> file in the tests).  An archive is
  the list of its named arrays in stored order; the archives written so far are kept by
  the path they were written to.  \<open>archive_files\<close> is \<open>data.files\<close> of the loaded archive
  and \<open>archive_get\<close> is \<open>data[name]\<close>.
\<close>

type_synonym archive = "(string \<times> pcd) list"

definition archive_files :: "archive \<Rightarrow> string list" where
  "archive_files a = map fst a"

definition archive_get :: "archive \<Rightarrow> string \<Rightarrow> pcd option" where
  "archive_get a name = map_of a name"

text \<open>
  Modelled from the spec: \<open>pcd_from_files\<close> (ArchiveBuilder).  Read each file, collect the
  pairs in input order, apply a single random permutation to the collected pairs when
  \<open>shuffle\<close> is set, and write all pairs to \<open>outname\<close> as one archive.  A failed build
  writes nothing.
\<close>

definition pcd_from_files ::
  "parser \<Rightarrow> (nat \<Rightarrow> nat) \<Rightarrow> (string \<rightharpoonup> archive) \<Rightarrow> string list \<Rightarrow> string \<Rightarrow> bool \<Rightarrow>
   error + (string \<rightharpoonup> archive)" where
  "pcd_from_files parse rnd store fnames outname shuf =
     (case read_structures parse fnames of
        Inl e \<Rightarrow> Inl e
      | Inr pairs \<Rightarrow>
          Inr (store(outname \<mapsto> (if shuf then random_permutation rnd pairs else pairs))))"

text \<open>
  Modelled from the spec: \<open>pcd_from_dir\<close>.  The same over all files directly inside a
  directory, in the directory's natural listing order: \<open>listdir\<close> gives the names of the
  entries of a directory.  The name of a directory entry is not empty, is not \<open>.\<close> and
  holds no separator.
\<close>

definition entry_name :: "string \<Rightarrow> bool" where
  "entry_name n \<longleftrightarrow> n \<noteq> [] \<and> n \<noteq> ''.'' \<and> CHR ''/'' \<notin> set n"

definition pcd_from_dir ::
  "parser \<Rightarrow> (nat \<Rightarrow> nat) \<Rightarrow> (string \<Rightarrow> string list) \<Rightarrow> (string \<rightharpoonup> archive) \<Rightarrow> string \<Rightarrow> string \<Rightarrow>
   bool \<Rightarrow> error + (string \<rightharpoonup> archive)" where
  "pcd_from_dir parse rnd listdir store dirname outname shuf =
     pcd_from_files parse rnd store (map (os_path_join dirname) (listdir dirname)) outname shuf"

section \<open>An example configuration\<close>

text \<open>
  A base directory \<open>pcd_data\<close> holding the archive and the three manifest files, and a
  module configured on it with a training size of two.
\<close>

definition example_fs :: filesystem where
  "example_fs =
     [''pcd_data/train.json'' \<mapsto> [''a'', ''b'', ''c''],
      ''pcd_data/validation.json'' \<mapsto> [''d''],
      ''pcd_data/test.json'' \<mapsto> [''e'']]"

definition example_module :: "unit PCDDataModule" where
  "example_module =
     PCDDataModule_init ''pcd_data/pcds.npz'' ''pcd_data/labels.csv'' ''name'' [''y'']
       (Some 2) None None None True 32 16 None"

text \<open>
  The same module with a passthrough mapping: one that sets \<open>shuffle\<close>, one that sets
  \<open>batch_size\<close>, and one that sets an option no loader method passes itself.
\<close>

definition shuffle_cfg_module :: "unit PCDDataModule" where
  "shuffle_cfg_module =
     PCDDataModule_init ''pcd_data/pcds.npz'' ''pcd_data/labels.csv'' ''name'' [''y'']
       (Some 2) None None None True 32 16 (Some [(''shuffle'', PyBool True)])"

definition batch_cfg_module :: "unit PCDDataModule" where
  "batch_cfg_module =
     PCDDataModule_init ''pcd_data/pcds.npz'' ''pcd_data/labels.csv'' ''name'' [''y'']
       (Some 2) None None None True 32 16 (Some [(''batch_size'', PyInt 8)])"

definition workers_cfg_module :: "unit PCDDataModule" where
  "workers_cfg_module =
     PCDDataModule_init ''pcd_data/pcds.npz'' ''pcd_data/labels.csv'' ''name'' [''y'']
       (Some 2) None None None True 32 16 (Some [(''num_workers'', PyInt 4)])"

text \<open>
  Stand-ins for the two sample structures of the tests, which are not among the source
  files: structures with the atom counts the tests state (424 and 624), the first with
  zinc (atomic number 30) and the second without, all atoms placed at the origin.  The
  example parser knows these two files only.
\<close>

definition atom_at_origin :: "nat \<Rightarrow> atom" where
  "atom_at_origin Z = \<lparr>atom_x = 0, atom_y = 0, atom_z = 0, atom_number = Z\<rparr>"

definition irmof1_atoms :: "atom list" where
  "irmof1_atoms =
     replicate 32 (atom_at_origin 30) @ replicate 104 (atom_at_origin 8) @
     replicate 192 (atom_at_origin 6) @ replicate 96 (atom_at_origin 1)"

definition cubtc_atoms :: "atom list" where
  "cubtc_atoms =
     replicate 48 (atom_at_origin 29) @ replicate 192 (atom_at_origin 8) @
     replicate 288 (atom_at_origin 6) @ replicate 96 (atom_at_origin 1)"

definition sample_parser :: parser where
  "sample_parser f =
     (if f = ''tests/samples/IRMOF-1.xyz'' then Some irmof1_atoms
      else if f = ''tests/samples/Cu-BTC.cif'' then Some cubtc_atoms
      else None)"

definition sample_listdir :: "string \<Rightarrow> string list" where
  "sample_listdir d = (if d = ''tests/samples'' then [''IRMOF-1.xyz'', ''Cu-BTC.cif''] else [])"

text \<open>A random source whose every draw is 1: it puts the second of two entries first.\<close>

definition sample_rnd :: "nat \<Rightarrow> nat" where
  "sample_rnd k = 1"

section \<open>Auxiliary facts\<close>

lemma manifest_path_upd [simp]:
  "manifest_path (self\<lparr>priv_train_names := a\<rparr>) n = manifest_path self n"
  "manifest_path (self\<lparr>priv_val_names := b\<rparr>) n = manifest_path self n"
  "manifest_path (self\<lparr>priv_test_names := c\<rparr>) n = manifest_path self n"
  "manifest_path (self\<lparr>train_dataset := d\<rparr>) n = manifest_path self n"
  "manifest_path (self\<lparr>validation_dataset := e\<rparr>) n = manifest_path self n"
  "manifest_path (self\<lparr>test_dataset := f\<rparr>) n = manifest_path self n"
  by (simp_all add: manifest_path_def)

lemma setup_fit_ok:
  assumes "fs (manifest_path self ''train.json'') = Some tr"
    and "fs (manifest_path self ''validation.json'') = Some va"
  shows "setup_fit fs self =
    (Inr (), self\<lparr>priv_train_names := Some (slice_upto tr (train_size self)),
                  priv_val_names := Some va,
                  train_dataset := Some (PCDDataset_init (slice_upto tr (train_size self))
                     (path_to_X self) (path_to_Y self) (index_col self) (labels self)
                     (train_transform_x self) (transform_y self)),
                  validation_dataset := Some (PCDDataset_init va
                     (path_to_X self) (path_to_Y self) (index_col self) (labels self)
                     (eval_transform_x self) (transform_y self))\<rparr>)"
  using assms
  by (simp add: setup_fit_def get_names_def set_train_dataset_def set_validation_dataset_def
      train_names_def val_names_def getattr_def)


lemma setup_fit_no_train:
  assumes "fs (manifest_path self ''train.json'') = None"
  shows "setup_fit fs self = (Inl (FileNotFoundError (manifest_path self ''train.json'')), self)"
  using assms by (simp add: setup_fit_def get_names_def)

lemma setup_fit_no_validation:
  assumes "fs (manifest_path self ''train.json'') = Some tr"
    and "fs (manifest_path self ''validation.json'') = None"
  shows "setup_fit fs self =
    (Inl (FileNotFoundError (manifest_path self ''validation.json'')),
     self\<lparr>priv_train_names := Some (slice_upto tr (train_size self))\<rparr>)"
  using assms by (simp add: setup_fit_def get_names_def)

lemma setup_test_ok:
  assumes "fs (manifest_path self ''test.json'') = Some te"
  shows "setup_test fs self =
    (Inr (), self\<lparr>priv_test_names := Some te,
                  test_dataset := Some (PCDDataset_init te
                     (path_to_X self) (path_to_Y self) (index_col self) (labels self)
                     (eval_transform_x self) (transform_y self))\<rparr>)"
  using assms
  by (simp add: setup_test_def get_names_def set_test_dataset_def test_names_def getattr_def)

lemma setup_test_no_test:
  assumes "fs (manifest_path self ''test.json'') = None"
  shows "setup_test fs self = (Inl (FileNotFoundError (manifest_path self ''test.json'')), self)"
  using assms by (simp add: setup_test_def get_names_def)

lemma setup_fit_idem: "setup_fit fs (snd (setup_fit fs self)) = setup_fit fs self"
proof (cases "fs (manifest_path self ''train.json'')")
  case None
  then show ?thesis by (simp add: setup_fit_no_train)
next
  case tr: (Some tr)
  show ?thesis
  proof (cases "fs (manifest_path self ''validation.json'')")
    case None
    have 1: "setup_fit fs self =
      (Inl (FileNotFoundError (manifest_path self ''validation.json'')),
       self\<lparr>priv_train_names := Some (slice_upto tr (train_size self))\<rparr>)"
      using tr None by (rule setup_fit_no_validation [of fs self tr])
    have 2: "setup_fit fs (self\<lparr>priv_train_names := Some (slice_upto tr (train_size self))\<rparr>) =
      (Inl (FileNotFoundError (manifest_path self ''validation.json'')),
       self\<lparr>priv_train_names := Some (slice_upto tr (train_size self))\<rparr>)"
      using tr None
      by (simp add: setup_fit_no_validation
          [of fs "self\<lparr>priv_train_names := Some (slice_upto tr (train_size self))\<rparr>" tr])
    show ?thesis by (simp add: 1 2)
  next
    case va: (Some va)
    define s where "s = self\<lparr>priv_train_names := Some (slice_upto tr (train_size self)),
                  priv_val_names := Some va,
                  train_dataset := Some (PCDDataset_init (slice_upto tr (train_size self))
                     (path_to_X self) (path_to_Y self) (index_col self) (labels self)
                     (train_transform_x self) (transform_y self)),
                  validation_dataset := Some (PCDDataset_init va
                     (path_to_X self) (path_to_Y self) (index_col self) (labels self)
                     (eval_transform_x self) (transform_y self))\<rparr>"
    have 1: "setup_fit fs self = (Inr (), s)"
      unfolding s_def using tr va by (rule setup_fit_ok [of fs self tr va])
    have "fs (manifest_path s ''train.json'') = Some tr"
      "fs (manifest_path s ''validation.json'') = Some va"
      using tr va by (simp_all add: s_def)
    then have 2: "setup_fit fs s = (Inr (), s)"
      by (simp add: setup_fit_ok [of fs s tr va]) (simp add: s_def)
    show ?thesis by (simp add: 1 2)
  qed
qed

lemma setup_test_idem: "setup_test fs (snd (setup_test fs self)) = setup_test fs self"
proof (cases "fs (manifest_path self ''test.json'')")
  case None
  then show ?thesis by (simp add: setup_test_no_test)
next
  case te: (Some te)
  define s where "s = self\<lparr>priv_test_names := Some te,
                  test_dataset := Some (PCDDataset_init te
                     (path_to_X self) (path_to_Y self) (index_col self) (labels self)
                     (eval_transform_x self) (transform_y self))\<rparr>"
  have 1: "setup_test fs self = (Inr (), s)"
    unfolding s_def using te by (rule setup_test_ok [of fs self te])
  have "fs (manifest_path s ''test.json'') = Some te"
    using te by (simp add: s_def)
  then have 2: "setup_test fs s = (Inr (), s)"
    by (simp add: setup_test_ok [of fs s te]) (simp add: s_def)
  show ?thesis by (simp add: 1 2)
qed

lemma example_parent: "fspath (parent (Path ''pcd_data/pcds.npz'')) = ''pcd_data''"
  by (simp add: fspath_def parent_def Path_def splitroot_def)

lemma example_manifest_path:
  "manifest_path example_module name = os_path_join ''pcd_data'' name"
  by (simp add: manifest_path_def example_module_def PCDDataModule_init_def example_parent)

lemma ex_paths:
  "manifest_path example_module ''train.json'' = ''pcd_data/train.json''"
  "manifest_path example_module ''validation.json'' = ''pcd_data/validation.json''"
  "manifest_path example_module ''test.json'' = ''pcd_data/test.json''"
  by (simp_all add: example_manifest_path os_path_join_def)

lemma setup_stage_fit: "setup_stage fs (Some ''fit'') self = setup_fit fs self"
  by (simp add: setup_stage_def split: prod.splits sum.splits)

lemma setup_stage_test: "setup_stage fs (Some ''test'') self = setup_test fs self"
  by (simp add: setup_stage_def)

lemma setup_stage_None:
  "setup_stage fs None self =
     (case setup_fit fs self of (Inl e, s1) \<Rightarrow> (Inl e, s1) | (Inr u, s1) \<Rightarrow> setup_test fs s1)"
  by (simp add: setup_stage_def split: prod.splits sum.splits)

lemma setup_stage_other:
  "stage \<notin> {None, Some ''fit'', Some ''test''} \<Longrightarrow> setup_stage fs stage self = (Inr (), self)"
  by (cases stage) (simp_all add: setup_stage_def)


lemma setup_test_frame:
  "\<exists>a b. snd (setup_test fs s) = s\<lparr>priv_test_names := a, test_dataset := b\<rparr>"
proof (cases "fs (manifest_path s ''test.json'')")
  case None
  have "s = s\<lparr>priv_test_names := priv_test_names s, test_dataset := test_dataset s\<rparr>"
    by simp
  then show ?thesis
    using None by (simp only: setup_test_no_test snd_conv) blast
next
  case (Some te)
  then show ?thesis
    by (simp only: setup_test_ok [of fs s te] snd_conv) blast
qed

lemma setup_fit_test_upd:
  "setup_fit fs (s\<lparr>priv_test_names := a, test_dataset := b\<rparr>) =
     (fst (setup_fit fs s), (snd (setup_fit fs s))\<lparr>priv_test_names := a, test_dataset := b\<rparr>)"
proof (cases "fs (manifest_path s ''train.json'')")
  case None
  then show ?thesis by (simp add: setup_fit_no_train)
next
  case tr: (Some tr)
  show ?thesis
  proof (cases "fs (manifest_path s ''validation.json'')")
    case None
    with tr show ?thesis
      by (simp add: setup_fit_no_validation [of fs _ tr])
  next
    case (Some va)
    with tr show ?thesis
      by (simp add: setup_fit_ok [of fs _ tr va])
  qed
qed

lemma manifest_path_configured:
  "priv_path_to_names self = parent (Path (path_to_X self)) \<Longrightarrow>
   manifest_path self name = os_path_join (fspath (parent (Path (path_to_X self)))) name"
  by (simp add: manifest_path_def)

lemma slice_upto_None: "slice_upto xs None = xs"
  by (simp add: slice_upto_def)

lemma slice_upto_nonneg: "0 \<le> n \<Longrightarrow> slice_upto xs (Some n) = take (nat n) xs"
  by (simp add: slice_upto_def)

lemma slice_upto_neg: "n < 0 \<Longrightarrow> slice_upto xs (Some n) = take (length xs - nat (- n)) xs"
proof -
  assume "n < 0"
  then have "nat (int (length xs) + n) = length xs - nat (- n)" by arith
  with \<open>n < 0\<close> show ?thesis by (simp add: slice_upto_def)
qed

lemma setup_test_keeps:
  "priv_train_names (snd (setup_test fs s)) = priv_train_names s"
  "priv_val_names (snd (setup_test fs s)) = priv_val_names s"
  "train_dataset (snd (setup_test fs s)) = train_dataset s"
  "validation_dataset (snd (setup_test fs s)) = validation_dataset s"
proof -
  obtain a b where "snd (setup_test fs s) = s\<lparr>priv_test_names := a, test_dataset := b\<rparr>"
    using setup_test_frame [of fs s] by blast
  then show
    "priv_train_names (snd (setup_test fs s)) = priv_train_names s"
    "priv_val_names (snd (setup_test fs s)) = priv_val_names s"
    "train_dataset (snd (setup_test fs s)) = train_dataset s"
    "validation_dataset (snd (setup_test fs s)) = validation_dataset s"
    by simp_all
qed

lemma init_path_to_names:
  "priv_path_to_names (PCDDataModule_init X Y icol labs tsize ttx etx ty shuf tbs ebs cfg) =
     parent (Path (path_to_X (PCDDataModule_init X Y icol labs tsize ttx etx ty shuf tbs ebs cfg)))"
  by (simp add: PCDDataModule_init_def)

lemma manifest_path_train_size [simp]:
  "manifest_path (self\<lparr>train_size := ts\<rparr>) n = manifest_path self n"
  by (simp add: manifest_path_def)

lemma fst_setup_fit:
  "fst (setup_fit fs s) =
     (case fs (manifest_path s ''train.json'') of
        None \<Rightarrow> Inl (FileNotFoundError (manifest_path s ''train.json''))
      | Some tr \<Rightarrow>
          (case fs (manifest_path s ''validation.json'') of
             None \<Rightarrow> Inl (FileNotFoundError (manifest_path s ''validation.json''))
           | Some va \<Rightarrow> Inr ()))"
  by (auto simp: setup_fit_no_train setup_fit_no_validation setup_fit_ok split: option.splits)

lemma fst_setup_test:
  "fst (setup_test fs s) =
     (case fs (manifest_path s ''test.json'') of
        None \<Rightarrow> Inl (FileNotFoundError (manifest_path s ''test.json''))
      | Some te \<Rightarrow> Inr ())"
  by (auto simp: setup_test_no_test setup_test_ok split: option.splits)

lemma manifest_path_setup_fit [simp]:
  "manifest_path (snd (setup_fit fs s)) n = manifest_path s n"
  by (cases "fs (manifest_path s ''train.json'')"; cases "fs (manifest_path s ''validation.json'')")
     (simp_all add: setup_fit_no_train setup_fit_no_validation setup_fit_ok)

lemma fst_setup_stage:
  "fst (setup_stage fs stage s) =
     (case (if stage \<in> {None, Some ''fit''} then fst (setup_fit fs s) else Inr ()) of
        Inl e \<Rightarrow> Inl e
      | Inr u \<Rightarrow> if stage \<in> {None, Some ''test''} then fst (setup_test fs s) else Inr ())"
proof -
  obtain r b where p: "setup_fit fs s = (r, b)"
    by (cases "setup_fit fs s")
  have "fst (setup_test fs (snd (setup_fit fs s))) = fst (setup_test fs s)"
    by (simp add: fst_setup_test split: option.splits)
  then have b: "fst (setup_test fs b) = fst (setup_test fs s)"
    by (simp add: p)
  show ?thesis
    by (cases r) (auto simp: setup_stage_def p b)
qed

lemma DataLoader_init_ok:
  assumes "\<forall>k \<in> set cfg. fst k \<notin> set (''dataset'' # map fst written)"
  shows "DataLoader_init ds written cfg = Inr \<lparr>dl_dataset = ds, dl_kwargs = written @ cfg\<rparr>"
proof -
  have "find (\<lambda>k. k \<in> set (''dataset'' # map fst written)) (map fst cfg) = None"
    using assms by (auto simp: find_None_iff)
  then show ?thesis by (simp add: DataLoader_init_def)
qed

lemma find_Some_set: "find P xs = Some x \<Longrightarrow> P x \<and> x \<in> set xs"
  by (induction xs) (auto split: if_splits)

lemma DataLoader_init_dup:
  assumes "k \<in> set (map fst cfg)" and "k \<in> set (''dataset'' # map fst written)"
  shows "\<exists>k'. DataLoader_init ds written cfg = Inl (TypeError k') \<and> k' \<in> set (map fst cfg) \<and>
           k' \<in> set (''dataset'' # map fst written)"
proof (cases "find (\<lambda>k. k \<in> set (''dataset'' # map fst written)) (map fst cfg)")
  case None
  with assms show ?thesis by (auto simp: find_None_iff)
next
  case (Some k')
  then have "k' \<in> set (map fst cfg)" "k' \<in> set (''dataset'' # map fst written)"
    using find_Some_set [OF Some] by simp_all
  with Some show ?thesis by (simp add: DataLoader_init_def)
qed

lemma manifest_path_config [simp]:
  "manifest_path (self\<lparr>config_dataloaders := c\<rparr>) n = manifest_path self n"
  by (simp add: manifest_path_def)

lemma cfg_modules:
  "shuffle_cfg_module = example_module\<lparr>config_dataloaders := [(''shuffle'', PyBool True)]\<rparr>"
  "batch_cfg_module = example_module\<lparr>config_dataloaders := [(''batch_size'', PyInt 8)]\<rparr>"
  "workers_cfg_module = example_module\<lparr>config_dataloaders := [(''num_workers'', PyInt 4)]\<rparr>"
  by (simp_all add: shuffle_cfg_module_def batch_cfg_module_def workers_cfg_module_def
      example_module_def PCDDataModule_init_def)

lemma example_files:
  "example_fs (manifest_path (example_module\<lparr>config_dataloaders := c\<rparr>) ''train.json'') =
     Some [''a'', ''b'', ''c'']"
  "example_fs (manifest_path (example_module\<lparr>config_dataloaders := c\<rparr>) ''validation.json'') =
     Some [''d'']"
  "example_fs (manifest_path (example_module\<lparr>config_dataloaders := c\<rparr>) ''test.json'') =
     Some [''e'']"
  by (simp_all add: ex_paths example_fs_def)

lemma example_fields:
  "config_dataloaders example_module = []"
  "train_batch_size example_module = 32"
  "eval_batch_size example_module = 16"
  "shuffle example_module = True"
  "train_size example_module = Some 2"
  "train_dataset example_module = None"
  "validation_dataset example_module = None"
  "test_dataset example_module = None"
  by (simp_all add: example_module_def PCDDataModule_init_def)

lemma example_setup_fit:
  "snd (setup_stage example_fs (Some ''fit'') (example_module\<lparr>config_dataloaders := c\<rparr>)) =
     example_module
       \<lparr>config_dataloaders := c,
        priv_train_names := Some [''a'', ''b''],
        priv_val_names := Some [''d''],
        train_dataset := Some (PCDDataset_init [''a'', ''b''] ''pcd_data/pcds.npz''
           ''pcd_data/labels.csv'' ''name'' [''y''] None None),
        validation_dataset := Some (PCDDataset_init [''d''] ''pcd_data/pcds.npz''
           ''pcd_data/labels.csv'' ''name'' [''y''] None None)\<rparr>"
  by (simp add: setup_stage_fit
      setup_fit_ok [of example_fs "example_module\<lparr>config_dataloaders := c\<rparr>", OF example_files(1,2)]
      slice_upto_def)
     (simp add: example_module_def PCDDataModule_init_def)


lemma example_setup_None:
  "setup_stage example_fs None (example_module\<lparr>config_dataloaders := c\<rparr>) =
     (Inr (), example_module
       \<lparr>config_dataloaders := c,
        priv_train_names := Some [''a'', ''b''],
        priv_val_names := Some [''d''],
        priv_test_names := Some [''e''],
        train_dataset := Some (PCDDataset_init [''a'', ''b''] ''pcd_data/pcds.npz''
           ''pcd_data/labels.csv'' ''name'' [''y''] None None),
        validation_dataset := Some (PCDDataset_init [''d''] ''pcd_data/pcds.npz''
           ''pcd_data/labels.csv'' ''name'' [''y''] None None),
        test_dataset := Some (PCDDataset_init [''e''] ''pcd_data/pcds.npz''
           ''pcd_data/labels.csv'' ''name'' [''y''] None None)\<rparr>)"
proof -
  let ?m = "example_module\<lparr>config_dataloaders := c\<rparr>"
  let ?s1 = "?m\<lparr>priv_train_names := Some (slice_upto [''a'', ''b'', ''c''] (train_size ?m)),
                  priv_val_names := Some [''d''],
                  train_dataset := Some (PCDDataset_init (slice_upto [''a'', ''b'', ''c''] (train_size ?m))
                     (path_to_X ?m) (path_to_Y ?m) (index_col ?m) (labels ?m)
                     (train_transform_x ?m) (transform_y ?m)),
                  validation_dataset := Some (PCDDataset_init [''d'']
                     (path_to_X ?m) (path_to_Y ?m) (index_col ?m) (labels ?m)
                     (eval_transform_x ?m) (transform_y ?m))\<rparr>"
  have 1: "setup_fit example_fs ?m = (Inr (), ?s1)"
    by (rule setup_fit_ok [of example_fs ?m, OF example_files(1,2)])
  have "example_fs (manifest_path ?s1 ''test.json'') = Some [''e'']"
    by (simp add: ex_paths example_fs_def)
  from setup_test_ok [of example_fs ?s1 "[''e'']", OF this] 1 show ?thesis
    by (simp add: setup_stage_None slice_upto_def)
       (simp add: example_module_def PCDDataModule_init_def)
qed

lemma example_after_setup:
  "train_dataset (snd (setup_stage example_fs None (example_module\<lparr>config_dataloaders := c\<rparr>))) =
     Some (PCDDataset_init [''a'', ''b''] ''pcd_data/pcds.npz''
           ''pcd_data/labels.csv'' ''name'' [''y''] None None)"
  "validation_dataset (snd (setup_stage example_fs None (example_module\<lparr>config_dataloaders := c\<rparr>))) =
     Some (PCDDataset_init [''d''] ''pcd_data/pcds.npz''
           ''pcd_data/labels.csv'' ''name'' [''y''] None None)"
  "test_dataset (snd (setup_stage example_fs None (example_module\<lparr>config_dataloaders := c\<rparr>))) =
     Some (PCDDataset_init [''e''] ''pcd_data/pcds.npz''
           ''pcd_data/labels.csv'' ''name'' [''y''] None None)"
  "config_dataloaders (snd (setup_stage example_fs None (example_module\<lparr>config_dataloaders := c\<rparr>))) = c"
  "train_batch_size (snd (setup_stage example_fs None (example_module\<lparr>config_dataloaders := c\<rparr>))) = 32"
  "eval_batch_size (snd (setup_stage example_fs None (example_module\<lparr>config_dataloaders := c\<rparr>))) = 16"
  "shuffle (snd (setup_stage example_fs None (example_module\<lparr>config_dataloaders := c\<rparr>))) = True"
  by (simp_all add: example_setup_None example_fields)

lemma setup_fit_frame:
  "\<exists>a b c d. snd (setup_fit fs s) =
     s\<lparr>priv_train_names := a, priv_val_names := b, train_dataset := c, validation_dataset := d\<rparr>"
proof -
  have id: "s = s\<lparr>priv_train_names := priv_train_names s, priv_val_names := priv_val_names s,
                 train_dataset := train_dataset s, validation_dataset := validation_dataset s\<rparr>"
    by simp
  show ?thesis
  proof (cases "fs (manifest_path s ''train.json'')")
    case None
    with id show ?thesis
      by (simp only: setup_fit_no_train snd_conv) blast
  next
    case tr: (Some tr)
    show ?thesis
    proof (cases "fs (manifest_path s ''validation.json'')")
      case None
      have "s\<lparr>priv_train_names := Some (slice_upto tr (train_size s))\<rparr> =
            s\<lparr>priv_train_names := Some (slice_upto tr (train_size s)), priv_val_names := priv_val_names s,
                 train_dataset := train_dataset s, validation_dataset := validation_dataset s\<rparr>"
        by simp
      then show ?thesis
        by (simp only: setup_fit_no_validation [of fs s tr, OF tr None] snd_conv) blast
    next
      case (Some va)
      show ?thesis
        by (simp only: setup_fit_ok [of fs s tr va, OF tr Some] snd_conv) blast
    qed
  qed
qed

lemma setup_fit_keeps:
  "test_dataset (snd (setup_fit fs s)) = test_dataset s"
  "config_dataloaders (snd (setup_fit fs s)) = config_dataloaders s"
  "eval_batch_size (snd (setup_fit fs s)) = eval_batch_size s"
  "path_to_X (snd (setup_fit fs s)) = path_to_X s"
  "path_to_Y (snd (setup_fit fs s)) = path_to_Y s"
  "index_col (snd (setup_fit fs s)) = index_col s"
  "labels (snd (setup_fit fs s)) = labels s"
  "eval_transform_x (snd (setup_fit fs s)) = eval_transform_x s"
  "transform_y (snd (setup_fit fs s)) = transform_y s"
proof -
  obtain a b c d where "snd (setup_fit fs s) =
     s\<lparr>priv_train_names := a, priv_val_names := b, train_dataset := c, validation_dataset := d\<rparr>"
    using setup_fit_frame [of fs s] by blast
  then show
    "test_dataset (snd (setup_fit fs s)) = test_dataset s"
    "config_dataloaders (snd (setup_fit fs s)) = config_dataloaders s"
    "eval_batch_size (snd (setup_fit fs s)) = eval_batch_size s"
    "path_to_X (snd (setup_fit fs s)) = path_to_X s"
    "path_to_Y (snd (setup_fit fs s)) = path_to_Y s"
    "index_col (snd (setup_fit fs s)) = index_col s"
    "labels (snd (setup_fit fs s)) = labels s"
    "eval_transform_x (snd (setup_fit fs s)) = eval_transform_x s"
    "transform_y (snd (setup_fit fs s)) = transform_y s"
    by simp_all
qed

lemma loader_missing_dataset:
  "train_dataset s = None \<Longrightarrow> train_dataloader s = Inl (AttributeError ''train_dataset'')"
  "validation_dataset s = None \<Longrightarrow> val_dataloader s = Inl (AttributeError ''validation_dataset'')"
  "test_dataset s = None \<Longrightarrow> test_dataloader s = Inl (AttributeError ''test_dataset'')"
  by (simp_all add: train_dataloader_def val_dataloader_def test_dataloader_def getattr_def)

lemma example_fs_files:
  "example_fs ''pcd_data/train.json'' = Some [''a'', ''b'', ''c'']"
  "example_fs ''pcd_data/validation.json'' = Some [''d'']"
  "example_fs ''pcd_data/test.json'' = Some [''e'']"
  by (simp_all add: example_fs_def)

lemma example_module_cfg: "example_module\<lparr>config_dataloaders := []\<rparr> = example_module"
  by (simp add: example_module_def PCDDataModule_init_def)

lemma example_after_fit:
  "test_dataset (snd (setup_stage example_fs (Some ''fit'') (example_module\<lparr>config_dataloaders := c\<rparr>))) = None"
  by (simp add: example_setup_fit example_fields)

lemma example_after_fit_test:
  "setup_stage example_fs (Some ''test'')
     (snd (setup_stage example_fs (Some ''fit'') (example_module\<lparr>config_dataloaders := c\<rparr>))) =
   setup_stage example_fs None (example_module\<lparr>config_dataloaders := c\<rparr>)"
proof -
  obtain r s1 where p: "setup_fit example_fs (example_module\<lparr>config_dataloaders := c\<rparr>) = (r, s1)"
    by (cases "setup_fit example_fs (example_module\<lparr>config_dataloaders := c\<rparr>)")
  have "r = Inr ()"
    using fst_setup_fit [of example_fs "example_module\<lparr>config_dataloaders := c\<rparr>"]
    by (simp add: p ex_paths example_fs_files)
  then show ?thesis
    by (simp add: setup_stage_fit setup_stage_test setup_stage_None p)
qed

lemma read_structures_names:
  "read_structures parse fnames = Inr ps \<Longrightarrow> map fst ps = map stem fnames"
proof (induction fnames arbitrary: ps)
  case Nil
  then show ?case by simp
next
  case (Cons f fnames)
  then show ?case
    by (auto simp: pcd_from_file_def split: sum.splits option.splits)
qed

lemma read_structures_ok:
  "(\<forall>f \<in> set fnames. parse f \<noteq> None) \<Longrightarrow> \<exists>ps. read_structures parse fnames = Inr ps"
  by (induction fnames) (auto simp: pcd_from_file_def split: sum.splits option.splits)

lemma read_structures_fails:
  "f \<in> set fnames \<Longrightarrow> parse f = None \<Longrightarrow> \<exists>g. read_structures parse fnames = Inl (BuildError g)"
  by (induction fnames) (auto simp: pcd_from_file_def split: sum.splits option.splits)

lemma mset_random_permutation: "mset (random_permutation rnd xs) = mset xs"
proof (induction rnd xs rule: random_permutation.induct)
  case (1 rnd)
  then show ?case by simp
next
  case (2 rnd x xs)
  define ys where "ys = x # xs"
  define i where "i = rnd (Suc (length xs)) mod Suc (length xs)"
  have i: "i < length ys" by (simp add: i_def ys_def)
  have IH: "mset (random_permutation rnd (take i ys @ drop (Suc i) ys)) =
      mset (take i ys @ drop (Suc i) ys)"
    using "2.IH" [of i] by (simp add: i_def ys_def)
  have "mset ys = mset (take i ys @ ys ! i # drop (Suc i) ys)"
    using i by (simp add: id_take_nth_drop [symmetric])
  then have "mset ys = add_mset (ys ! i) (mset (take i ys @ drop (Suc i) ys))"
    by simp
  moreover have "random_permutation rnd ys =
      ys ! i # random_permutation rnd (take i ys @ drop (Suc i) ys)"
    by (simp add: ys_def i_def Let_def)
  ultimately show ?case
    using IH by (simp add: ys_def)
qed

lemma split_sep_nonempty: "split_sep c xs \<noteq> []"
  by (induction xs) (auto split: list.splits)

lemma split_sep_append:
  "split_sep c (xs @ c # ys) = split_sep c xs @ split_sep c ys"
proof (induction xs)
  case Nil
  then show ?case by simp
next
  case (Cons x xs)
  obtain w ws where w: "split_sep c xs = w # ws"
    using split_sep_nonempty [of c xs] by (cases "split_sep c xs") auto
  show ?case
    using Cons by (simp add: w)
qed

lemma split_sep_no_sep: "c \<notin> set n \<Longrightarrow> split_sep c n = [n]"
  by (induction n) auto

lemma path_tail_sep:
  assumes "entry_name n"
  shows "path_tail (Path (xs @ CHR ''/'' # n)) = path_tail (Path xs) @ [n]"
  using assms by (simp add: Path_def split_sep_append split_sep_no_sep entry_name_def)

lemma path_tail_entry:
  assumes "entry_name n"
  shows "path_tail (Path n) = [n]"
  using assms by (simp add: Path_def split_sep_no_sep entry_name_def)

lemma path_name_join:
  assumes "entry_name n"
  shows "path_name (Path (os_path_join d n)) = n"
proof -
  have n: "take 1 n \<noteq> ''/''"
    using assms by (cases n) (auto simp: entry_name_def)
  show ?thesis
  proof (cases "d = []")
    case True
    then show ?thesis
      using n by (simp add: os_path_join_def path_name_def path_tail_entry [OF assms])
  next
    case False
    show ?thesis
    proof (cases "last d = CHR ''/''")
      case True
      then have "d @ n = butlast d @ CHR ''/'' # n"
        using False by (metis append.assoc append_Cons append_Nil append_butlast_last_id)
      then have "path_tail (Path (d @ n)) = path_tail (Path (butlast d)) @ [n]"
        by (simp only: path_tail_sep [OF assms])
      then show ?thesis
        using n False True
        by (simp add: os_path_join_def path_name_def)
    next
      case nl: False
      then show ?thesis
        using n False
        by (simp add: os_path_join_def path_name_def path_tail_sep [OF assms])
    qed
  qed
qed

lemma stem_join:
  assumes "entry_name n"
  shows "stem (os_path_join d n) = stem n"
  using path_name_join [OF assms, of d] path_name_join [OF assms, of "[]"]
  by (simp add: stem_def os_path_join_def split: if_splits)


lemma sample_stems:
  "stem ''tests/samples/IRMOF-1.xyz'' = ''IRMOF-1''"
  "stem ''tests/samples/Cu-BTC.cif'' = ''Cu-BTC''"
  "stem ''IRMOF-1.xyz'' = ''IRMOF-1''"
  "stem ''Cu-BTC.cif'' = ''Cu-BTC''"
  by (simp_all add: stem_def Path_def path_name_def stem_of_name_def)

lemma archive_files_random_permutation:
  "mset (archive_files (random_permutation rnd ps)) = mset (archive_files ps)"
  by (simp add: archive_files_def mset_random_permutation)

lemma shape_points: "atoms \<noteq> [] \<Longrightarrow> shape (map point_of_atom atoms) = (length atoms, 4)"
  by (cases atoms) (simp_all add: shape_def point_of_atom_def)

lemma last_column_points:
  "last_column (map point_of_atom atoms) = map (\<lambda>a. real (atom_number a)) atoms"
  by (simp add: last_column_def point_of_atom_def)

lemma sample_atoms:
  "length irmof1_atoms = 424" "length cubtc_atoms = 624"
  "30 \<in> atom_number ` set irmof1_atoms" "30 \<notin> atom_number ` set cubtc_atoms"
  by (simp_all add: irmof1_atoms_def cubtc_atoms_def atom_at_origin_def set_replicate_conv_if)

section \<open>Properties\<close>

text \<open>
  C1: for a module whose manifest directory is the parent directory of \<open>path_to_X\<close> (as
  \<open>__init__\<close> sets it), \<open>setup\<close> with stage \<open>None\<close> or \<open>fit\<close> reads \<open>train.json\<close> and
  \<open>validation.json\<close> in that directory, keeps the slice \<open>[:train_size]\<close> of the train
  names (all of them for \<open>train_size = None\<close>, the first \<open>train_size\<close> for a non-negative
  \<open>train_size\<close>) and all validation names, and constructs the train dataset (with the
  train transform) and the validation dataset (with the eval transform); with stage
  \<open>None\<close> or \<open>test\<close> it reads \<open>test.json\<close> in the same directory and constructs the test
  dataset.  With stage \<open>None\<close> the test part runs after the fit part, so it is reached
  when the two fit manifests could be read.
\<close>

theorem setup_loads_manifests:
  fixes self :: "'f PCDDataModule"
  assumes dir: "priv_path_to_names self = parent (Path (path_to_X self))"
  shows
    "(stage \<in> {None, Some ''fit''} \<longrightarrow>
      fs (os_path_join (fspath (parent (Path (path_to_X self)))) ''train.json'') = Some tr \<longrightarrow>
      fs (os_path_join (fspath (parent (Path (path_to_X self)))) ''validation.json'') = Some va \<longrightarrow>
        priv_train_names (snd (setup_stage fs stage self)) = Some (slice_upto tr (train_size self)) \<and>
        priv_val_names (snd (setup_stage fs stage self)) = Some va \<and>
        train_dataset (snd (setup_stage fs stage self)) =
          Some (PCDDataset_init (slice_upto tr (train_size self)) (path_to_X self) (path_to_Y self)
                  (index_col self) (labels self) (train_transform_x self) (transform_y self)) \<and>
        validation_dataset (snd (setup_stage fs stage self)) =
          Some (PCDDataset_init va (path_to_X self) (path_to_Y self)
                  (index_col self) (labels self) (eval_transform_x self) (transform_y self)) \<and>
        (stage = Some ''fit'' \<longrightarrow> fst (setup_stage fs stage self) = Inr ())) \<and>
     (stage = Some ''test'' \<or>
      stage = None \<and>
      fs (os_path_join (fspath (parent (Path (path_to_X self)))) ''train.json'') = Some tr \<and>
      fs (os_path_join (fspath (parent (Path (path_to_X self)))) ''validation.json'') = Some va \<longrightarrow>
      fs (os_path_join (fspath (parent (Path (path_to_X self)))) ''test.json'') = Some te \<longrightarrow>
        fst (setup_stage fs stage self) = Inr () \<and>
        priv_test_names (snd (setup_stage fs stage self)) = Some te \<and>
        test_dataset (snd (setup_stage fs stage self)) =
          Some (PCDDataset_init te (path_to_X self) (path_to_Y self)
                  (index_col self) (labels self) (eval_transform_x self) (transform_y self))) \<and>
     (train_size self = None \<longrightarrow> slice_upto tr (train_size self) = tr) \<and>
     (\<forall>n. train_size self = Some n \<longrightarrow> 0 \<le> n \<longrightarrow> slice_upto tr (train_size self) = take (nat n) tr)"
proof -
  note mp = manifest_path_configured [OF dir, symmetric]
  show ?thesis
    by (intro conjI impI allI; (elim disjE conjE)?)
       (auto simp: mp setup_stage_fit setup_stage_test setup_stage_None setup_fit_ok
          setup_test_ok setup_test_keeps slice_upto_None slice_upto_nonneg)
qed


theorem setup_loads_manifests_witness:
  "priv_train_names (snd (setup_stage example_fs None example_module)) = Some [''a'', ''b''] \<and>
   priv_val_names (snd (setup_stage example_fs None example_module)) = Some [''d''] \<and>
   priv_test_names (snd (setup_stage example_fs None example_module)) = Some [''e''] \<and>
   fst (setup_stage example_fs None example_module) = Inr ()"
proof -
  have X: "path_to_X example_module = ''pcd_data/pcds.npz''"
    and ts: "train_size example_module = Some 2"
    and dir: "priv_path_to_names example_module = parent (Path (path_to_X example_module))"
    by (simp_all add: example_module_def PCDDataModule_init_def)
  have files:
    "example_fs (os_path_join (fspath (parent (Path (path_to_X example_module)))) ''train.json'') =
       Some [''a'', ''b'', ''c'']"
    "example_fs (os_path_join (fspath (parent (Path (path_to_X example_module)))) ''validation.json'') =
       Some [''d'']"
    "example_fs (os_path_join (fspath (parent (Path (path_to_X example_module)))) ''test.json'') =
       Some [''e'']"
    by (simp_all add: X example_parent os_path_join_def example_fs_def)
  show ?thesis
    using setup_loads_manifests [OF dir, of None example_fs "[''a'', ''b'', ''c'']" "[''d'']" "[''e'']"]
    by (simp add: files ts slice_upto_def)
qed

text \<open>
  C7: calling \<open>setup\<close> twice with the same stage over unchanged manifest files is
  idempotent.  For every stage value (also one that is neither \<open>None\<close>, \<open>fit\<close> nor
  \<open>test\<close>), every file system and every state of the module, the second call returns
  the outcome of the first and leaves the module as the first call left it: the same
  manifest name lists and the same datasets, and the same exception when the first call
  raised one.
\<close>

theorem setup_idempotent:
  "setup_stage fs stage (snd (setup_stage fs stage self)) = setup_stage fs stage self"
proof -
  consider (none) "stage = None" | (fit) "stage = Some ''fit''" | (test) "stage = Some ''test''"
    | (other) "stage \<notin> {None, Some ''fit'', Some ''test''}"
    by auto
  then show ?thesis
  proof cases
    case fit
    then show ?thesis by (simp add: setup_stage_fit setup_fit_idem)
  next
    case test
    then show ?thesis by (simp add: setup_stage_test setup_test_idem)
  next
    case other
    then show ?thesis by (simp add: setup_stage_other)
  next
    case none
    obtain r s1 where fit1: "setup_fit fs self = (r, s1)"
      by (cases "setup_fit fs self")
    have fit2: "setup_fit fs s1 = (r, s1)"
      using setup_fit_idem [of fs self] by (simp add: fit1)
    show ?thesis
    proof (cases r)
      case (Inl e)
      then show ?thesis by (simp add: none setup_stage_None fit1 fit2)
    next
      case (Inr u)
      obtain r' s2 where test1: "setup_test fs s1 = (r', s2)"
        by (cases "setup_test fs s1")
      have test2: "setup_test fs s2 = (r', s2)"
        using setup_test_idem [of fs s1] by (simp add: test1)
      obtain a b where s2: "s2 = s1\<lparr>priv_test_names := a, test_dataset := b\<rparr>"
        using setup_test_frame [of fs s1] by (auto simp: test1)
      have fit3: "setup_fit fs s2 = (Inr (), s2)"
        unfolding s2 using fit2 Inr by (simp add: setup_fit_test_upd)
      show ?thesis by (simp add: none setup_stage_None fit1 Inr test1 fit3 test2)
    qed
  qed
qed

theorem setup_idempotent_witness:
  "setup_stage example_fs None (snd (setup_stage example_fs None example_module)) =
     setup_stage example_fs None example_module \<and>
   setup_stage example_fs (Some ''fit'') (snd (setup_stage example_fs (Some ''fit'') example_module)) =
     setup_stage example_fs (Some ''fit'') example_module"
  using setup_idempotent [of example_fs None example_module]
    setup_idempotent [of example_fs "Some ''fit''" example_module]
  by simp

text \<open>
  C9: \<open>setup\<close> applies \<open>train_size\<close> by plain slicing, with no validation.  Whether
  \<open>setup\<close> raises does not depend on \<open>train_size\<close> at all; when the two fit manifests
  can be read, the train names are the slice \<open>[:train_size]\<close>: the whole manifest when
  \<open>train_size\<close> is at least its length, the manifest without its last \<open>-train_size\<close>
  names when \<open>train_size\<close> is negative, and the empty list when \<open>-train_size\<close> is at
  least the length.
\<close>

theorem train_size_plain_slice:
  fixes self :: "'f PCDDataModule"
  shows
    "fst (setup_stage fs stage (self\<lparr>train_size := ts\<rparr>)) = fst (setup_stage fs stage self) \<and>
     (stage \<in> {None, Some ''fit''} \<longrightarrow>
      fs (manifest_path self ''train.json'') = Some tr \<longrightarrow>
      fs (manifest_path self ''validation.json'') = Some va \<longrightarrow>
        priv_train_names (snd (setup_stage fs stage self)) = Some (slice_upto tr (train_size self)) \<and>
        (stage = Some ''fit'' \<longrightarrow> fst (setup_stage fs stage self) = Inr ()) \<and>
        (\<forall>n. train_size self = Some n \<longrightarrow> int (length tr) \<le> n \<longrightarrow>
           priv_train_names (snd (setup_stage fs stage self)) = Some tr) \<and>
        (\<forall>n. train_size self = Some n \<longrightarrow> n < 0 \<longrightarrow>
           priv_train_names (snd (setup_stage fs stage self)) =
             Some (take (length tr - nat (- n)) tr)) \<and>
        (\<forall>n. train_size self = Some n \<longrightarrow> n \<le> - int (length tr) \<longrightarrow> n < 0 \<longrightarrow>
           priv_train_names (snd (setup_stage fs stage self)) = Some []))"
proof -
  have outcome: "fst (setup_stage fs stage (self\<lparr>train_size := ts\<rparr>)) = fst (setup_stage fs stage self)"
    by (simp add: fst_setup_stage fst_setup_fit fst_setup_test split: option.splits)
  have names: "priv_train_names (snd (setup_stage fs stage self)) = Some (slice_upto tr (train_size self))"
    and ok: "stage = Some ''fit'' \<longrightarrow> fst (setup_stage fs stage self) = Inr ()"
    if "stage \<in> {None, Some ''fit''}" "fs (manifest_path self ''train.json'') = Some tr"
      "fs (manifest_path self ''validation.json'') = Some va"
    using that
    by (auto simp: setup_stage_fit setup_stage_None setup_fit_ok setup_test_keeps)
  have big: "int (length tr) \<le> n \<Longrightarrow> slice_upto tr (Some n) = tr" for n
    by (simp add: slice_upto_def)
  have empty: "n \<le> - int (length tr) \<Longrightarrow> n < 0 \<Longrightarrow> slice_upto tr (Some n) = []" for n
    by (simp add: slice_upto_def)
  show ?thesis
    using outcome names ok by (auto simp: big empty slice_upto_neg)
qed

theorem train_size_plain_slice_witness:
  "priv_train_names
     (snd (setup_stage example_fs (Some ''fit'') (example_module\<lparr>train_size := Some 7\<rparr>))) =
     Some [''a'', ''b'', ''c''] \<and>
   priv_train_names
     (snd (setup_stage example_fs (Some ''fit'') (example_module\<lparr>train_size := Some (- 1)\<rparr>))) =
     Some [''a'', ''b''] \<and>
   priv_train_names
     (snd (setup_stage example_fs (Some ''fit'') (example_module\<lparr>train_size := Some (- 5)\<rparr>))) =
     Some [] \<and>
   fst (setup_stage example_fs (Some ''fit'') (example_module\<lparr>train_size := Some (- 5)\<rparr>)) = Inr ()"
proof -
  have files:
    "example_fs (manifest_path example_module ''train.json'') = Some [''a'', ''b'', ''c'']"
    "example_fs (manifest_path example_module ''validation.json'') = Some [''d'']"
    by (simp_all add: ex_paths example_fs_def)
  show ?thesis
    using
      train_size_plain_slice [where fs = example_fs and stage = "Some ''fit''"
        and self = "example_module\<lparr>train_size := Some 7\<rparr>"
        and tr = "[''a'', ''b'', ''c'']" and va = "[''d'']" and ts = None, THEN conjunct2]
      train_size_plain_slice [where fs = example_fs and stage = "Some ''fit''"
        and self = "example_module\<lparr>train_size := Some (- 1)\<rparr>"
        and tr = "[''a'', ''b'', ''c'']" and va = "[''d'']" and ts = None, THEN conjunct2]
      train_size_plain_slice [where fs = example_fs and stage = "Some ''fit''"
        and self = "example_module\<lparr>train_size := Some (- 5)\<rparr>"
        and tr = "[''a'', ''b'', ''c'']" and va = "[''d'']" and ts = None, THEN conjunct2]
    by (simp add: files slice_upto_def)
qed

text \<open>
  C4 (as amended): once the three datasets exist, and provided that the passthrough
  mapping \<open>config_dataloaders\<close> repeats none of the keywords a loader method writes itself
  (\<open>dataset\<close>, \<open>batch_size\<close>, and \<open>shuffle\<close> for the train loader), the train loader is
  constructed over the train dataset with the configured train batch size and the
  configured shuffle flag, the validation and test loaders over their datasets with the
  configured eval batch size and no shuffle argument of their own, and every loader
  receives the whole mapping \<open>config_dataloaders\<close> after its own keywords.  A validation or
  test loader shuffles exactly when \<open>config_dataloaders\<close> carries a true \<open>shuffle\<close> entry;
  without such an entry it does not shuffle.
\<close>

theorem loaders_use_configuration:
  fixes self :: "'f PCDDataModule"
  assumes "train_dataset self = Some dtr"
    and "validation_dataset self = Some dva"
    and "test_dataset self = Some dte"
  shows
    "((\<forall>k \<in> set (map fst (config_dataloaders self)). k \<notin> {''dataset'', ''batch_size'', ''shuffle''}) \<longrightarrow>
        (\<exists>dl. train_dataloader self = Inr dl \<and> dl_dataset dl = dtr \<and>
           dl_batch_size dl = Some (PyInt (train_batch_size self)) \<and>
           dl_shuffle dl = shuffle self \<and>
           dl_kwargs dl =
             [(''batch_size'', PyInt (train_batch_size self)), (''shuffle'', PyBool (shuffle self))] @
             config_dataloaders self)) \<and>
     ((\<forall>k \<in> set (map fst (config_dataloaders self)). k \<notin> {''dataset'', ''batch_size''}) \<longrightarrow>
        (\<exists>dl. val_dataloader self = Inr dl \<and> dl_dataset dl = dva \<and>
           dl_batch_size dl = Some (PyInt (eval_batch_size self)) \<and>
           dl_shuffle dl =
             (case map_of (config_dataloaders self) ''shuffle'' of None \<Rightarrow> False | Some v \<Rightarrow> truthy v) \<and>
           (''shuffle'' \<notin> set (map fst (config_dataloaders self)) \<longrightarrow> \<not> dl_shuffle dl) \<and>
           dl_kwargs dl = [(''batch_size'', PyInt (eval_batch_size self))] @ config_dataloaders self) \<and>
        (\<exists>dl. test_dataloader self = Inr dl \<and> dl_dataset dl = dte \<and>
           dl_batch_size dl = Some (PyInt (eval_batch_size self)) \<and>
           dl_shuffle dl =
             (case map_of (config_dataloaders self) ''shuffle'' of None \<Rightarrow> False | Some v \<Rightarrow> truthy v) \<and>
           (''shuffle'' \<notin> set (map fst (config_dataloaders self)) \<longrightarrow> \<not> dl_shuffle dl) \<and>
           dl_kwargs dl = [(''batch_size'', PyInt (eval_batch_size self))] @ config_dataloaders self))"
proof (intro conjI impI)
  assume a: "\<forall>k \<in> set (map fst (config_dataloaders self)). k \<notin> {''dataset'', ''batch_size'', ''shuffle''}"
  have "train_dataloader self =
      Inr \<lparr>dl_dataset = dtr,
           dl_kwargs = [(''batch_size'', PyInt (train_batch_size self)),
                        (''shuffle'', PyBool (shuffle self))] @ config_dataloaders self\<rparr>"
    unfolding train_dataloader_def getattr_def using assms(1) a
    by (simp add: DataLoader_init_ok [where cfg = "config_dataloaders self"])
  then show "\<exists>dl. train_dataloader self = Inr dl \<and> dl_dataset dl = dtr \<and>
           dl_batch_size dl = Some (PyInt (train_batch_size self)) \<and>
           dl_shuffle dl = shuffle self \<and>
           dl_kwargs dl =
             [(''batch_size'', PyInt (train_batch_size self)), (''shuffle'', PyBool (shuffle self))] @
             config_dataloaders self"
    by (simp add: dl_batch_size_def dl_shuffle_def)
next
  assume a: "\<forall>k \<in> set (map fst (config_dataloaders self)). k \<notin> {''dataset'', ''batch_size''}"
  have nos: "map_of (config_dataloaders self) ''shuffle'' = None"
    if "''shuffle'' \<notin> set (map fst (config_dataloaders self))"
    using that by (simp add: map_of_eq_None_iff)
  have "val_dataloader self =
      Inr \<lparr>dl_dataset = dva,
           dl_kwargs = [(''batch_size'', PyInt (eval_batch_size self))] @ config_dataloaders self\<rparr>"
    unfolding val_dataloader_def getattr_def using assms(2) a
    by (simp add: DataLoader_init_ok [where cfg = "config_dataloaders self"])
  then show "\<exists>dl. val_dataloader self = Inr dl \<and> dl_dataset dl = dva \<and>
           dl_batch_size dl = Some (PyInt (eval_batch_size self)) \<and>
           dl_shuffle dl =
             (case map_of (config_dataloaders self) ''shuffle'' of None \<Rightarrow> False | Some v \<Rightarrow> truthy v) \<and>
           (''shuffle'' \<notin> set (map fst (config_dataloaders self)) \<longrightarrow> \<not> dl_shuffle dl) \<and>
           dl_kwargs dl = [(''batch_size'', PyInt (eval_batch_size self))] @ config_dataloaders self"
    using nos by (auto simp: dl_batch_size_def dl_shuffle_def)
  have "test_dataloader self =
      Inr \<lparr>dl_dataset = dte,
           dl_kwargs = [(''batch_size'', PyInt (eval_batch_size self))] @ config_dataloaders self\<rparr>"
    unfolding test_dataloader_def getattr_def using assms(3) a
    by (simp add: DataLoader_init_ok [where cfg = "config_dataloaders self"])
  then show "\<exists>dl. test_dataloader self = Inr dl \<and> dl_dataset dl = dte \<and>
           dl_batch_size dl = Some (PyInt (eval_batch_size self)) \<and>
           dl_shuffle dl =
             (case map_of (config_dataloaders self) ''shuffle'' of None \<Rightarrow> False | Some v \<Rightarrow> truthy v) \<and>
           (''shuffle'' \<notin> set (map fst (config_dataloaders self)) \<longrightarrow> \<not> dl_shuffle dl) \<and>
           dl_kwargs dl = [(''batch_size'', PyInt (eval_batch_size self))] @ config_dataloaders self"
    using nos by (auto simp: dl_batch_size_def dl_shuffle_def)
qed


theorem loaders_use_configuration_witness:
  "map_sum id dl_kwargs (train_dataloader (snd (setup_stage example_fs None workers_cfg_module))) =
     Inr [(''batch_size'', PyInt 32), (''shuffle'', PyBool True), (''num_workers'', PyInt 4)] \<and>
   map_sum id dl_kwargs (val_dataloader (snd (setup_stage example_fs None workers_cfg_module))) =
     Inr [(''batch_size'', PyInt 16), (''num_workers'', PyInt 4)] \<and>
   map_sum id dl_kwargs (test_dataloader (snd (setup_stage example_fs None workers_cfg_module))) =
     Inr [(''batch_size'', PyInt 16), (''num_workers'', PyInt 4)] \<and>
   map_sum id dl_shuffle (train_dataloader (snd (setup_stage example_fs None workers_cfg_module))) =
     Inr True \<and>
   map_sum id dl_shuffle (val_dataloader (snd (setup_stage example_fs None workers_cfg_module))) =
     Inr False \<and>
   map_sum id dl_shuffle (test_dataloader (snd (setup_stage example_fs None workers_cfg_module))) =
     Inr False"
  using loaders_use_configuration
    [of "snd (setup_stage example_fs None workers_cfg_module)",
     unfolded cfg_modules, OF example_after_setup(1,2,3)]
  by (auto simp: cfg_modules example_after_setup)

text \<open>
  C4 as stated fails: with \<open>config_dataloaders = {'shuffle': True}\<close> the validation and the
  test loader are constructed with \<open>shuffle=True\<close>, and the train loader is not constructed
  at all.
\<close>

theorem eval_loader_shuffle_counterexample:
  "map_sum id dl_shuffle (val_dataloader (snd (setup_stage example_fs None shuffle_cfg_module))) =
     Inr True \<and>
   map_sum id dl_shuffle (test_dataloader (snd (setup_stage example_fs None shuffle_cfg_module))) =
     Inr True \<and>
   train_dataloader (snd (setup_stage example_fs None shuffle_cfg_module)) =
     Inl (TypeError ''shuffle'')"
  by (simp add: cfg_modules train_dataloader_def val_dataloader_def test_dataloader_def
      getattr_def example_after_setup DataLoader_init_def dl_shuffle_def)


text \<open>
  C5 (as amended): requesting a loader whose dataset \<open>setup\<close> has not created yet fails
  with \<open>AttributeError\<close> on the missing dataset attribute (the source has no
  \<open>NotReadyError\<close>): on a fresh module every loader request fails so, and after
  \<open>setup(stage='fit')\<close> alone the test loader request still does.  After a subsequent
  \<open>setup(stage='test')\<close> that can read \<open>test.json\<close>, the same request returns the test
  loader, provided \<open>config_dataloaders\<close> repeats neither \<open>dataset\<close> nor \<open>batch_size\<close>.
\<close>

theorem loader_before_setup_raises:
  fixes self :: "'f PCDDataModule"
  shows
    "(train_dataset self = None \<longrightarrow> train_dataloader self = Inl (AttributeError ''train_dataset'')) \<and>
     (validation_dataset self = None \<longrightarrow>
        val_dataloader self = Inl (AttributeError ''validation_dataset'')) \<and>
     (test_dataset self = None \<longrightarrow>
        test_dataloader self = Inl (AttributeError ''test_dataset'') \<and>
        test_dataloader (snd (setup_stage fs (Some ''fit'') self)) =
          Inl (AttributeError ''test_dataset'')) \<and>
     (fs (manifest_path self ''test.json'') = Some te \<longrightarrow>
      (\<forall>k \<in> set (map fst (config_dataloaders self)). k \<notin> {''dataset'', ''batch_size''}) \<longrightarrow>
        test_dataloader (snd (setup_stage fs (Some ''test'') (snd (setup_stage fs (Some ''fit'') self)))) =
          Inr \<lparr>dl_dataset = PCDDataset_init te (path_to_X self) (path_to_Y self) (index_col self)
                  (labels self) (eval_transform_x self) (transform_y self),
               dl_kwargs = [(''batch_size'', PyInt (eval_batch_size self))] @ config_dataloaders self\<rparr>) \<and>
     train_dataloader (PCDDataModule_init X Y icol labs tsize ttx etx ty shuf tbs ebs cfg
        :: 'f PCDDataModule) = Inl (AttributeError ''train_dataset'') \<and>
     val_dataloader (PCDDataModule_init X Y icol labs tsize ttx etx ty shuf tbs ebs cfg
        :: 'f PCDDataModule) = Inl (AttributeError ''validation_dataset'') \<and>
     test_dataloader (PCDDataModule_init X Y icol labs tsize ttx etx ty shuf tbs ebs cfg
        :: 'f PCDDataModule) = Inl (AttributeError ''test_dataset'')"
proof -
  let ?s1 = "snd (setup_fit fs self)"
  have after: "test_dataloader (snd (setup_test fs ?s1)) =
      Inr \<lparr>dl_dataset = PCDDataset_init te (path_to_X self) (path_to_Y self) (index_col self)
                  (labels self) (eval_transform_x self) (transform_y self),
           dl_kwargs = [(''batch_size'', PyInt (eval_batch_size self))] @ config_dataloaders self\<rparr>"
    if te: "fs (manifest_path self ''test.json'') = Some te"
      and cfg: "\<forall>k \<in> set (map fst (config_dataloaders self)). k \<notin> {''dataset'', ''batch_size''}"
  proof -
    have "fs (manifest_path ?s1 ''test.json'') = Some te"
      using te by simp
    note t = setup_test_ok [of fs ?s1 te, OF this]
    have "DataLoader_init d [(''batch_size'', PyInt (eval_batch_size self))] (config_dataloaders self) =
        Inr \<lparr>dl_dataset = d,
             dl_kwargs = [(''batch_size'', PyInt (eval_batch_size self))] @ config_dataloaders self\<rparr>" for d :: "'f PCDDataset"
      using cfg by (simp add: DataLoader_init_ok [where cfg = "config_dataloaders self"])
    then show ?thesis
      by (simp add: t test_dataloader_def getattr_def setup_fit_keeps)
  qed
  have fresh:
    "train_dataset (PCDDataModule_init X Y icol labs tsize ttx etx ty shuf tbs ebs cfg
        :: 'f PCDDataModule) = None"
    "validation_dataset (PCDDataModule_init X Y icol labs tsize ttx etx ty shuf tbs ebs cfg
        :: 'f PCDDataModule) = None"
    "test_dataset (PCDDataModule_init X Y icol labs tsize ttx etx ty shuf tbs ebs cfg
        :: 'f PCDDataModule) = None"
    by (simp_all add: PCDDataModule_init_def)
  show ?thesis
    using after
    by (simp add: loader_missing_dataset setup_stage_fit setup_stage_test setup_fit_keeps fresh)
qed


theorem loader_before_setup_raises_witness:
  "test_dataloader example_module = Inl (AttributeError ''test_dataset'') \<and>
   test_dataloader (snd (setup_stage example_fs (Some ''fit'') example_module)) =
     Inl (AttributeError ''test_dataset'') \<and>
   test_dataloader
     (snd (setup_stage example_fs (Some ''test'')
        (snd (setup_stage example_fs (Some ''fit'') example_module)))) =
     Inr \<lparr>dl_dataset = PCDDataset_init [''e''] ''pcd_data/pcds.npz'' ''pcd_data/labels.csv''
             ''name'' [''y''] None None,
          dl_kwargs = [(''batch_size'', PyInt 16)]\<rparr>"
proof -
  have te: "example_fs (manifest_path example_module ''test.json'') = Some [''e'']"
    by (simp add: ex_paths example_fs_def)
  have fields: "path_to_X example_module = ''pcd_data/pcds.npz''"
    "path_to_Y example_module = ''pcd_data/labels.csv''"
    "index_col example_module = ''name''" "labels example_module = [''y'']"
    "eval_transform_x example_module = None" "transform_y example_module = None"
    by (simp_all add: example_module_def PCDDataModule_init_def)
  show ?thesis
    using loader_before_setup_raises [where self = example_module and fs = example_fs
        and te = "[''e'']" and X = "''x''" and Y = "''y''" and icol = "''i''" and labs = "[]"
        and tsize = None and ttx = None and etx = None and ty = None and shuf = False
        and tbs = 1 and ebs = 1 and cfg = None]
    by (simp add: te example_fields fields)
qed

text \<open>
  C5 as stated fails: after \<open>setup(stage='fit')\<close> the test loader request raises
  \<open>AttributeError\<close>, not \<open>NotReadyError\<close>; and with \<open>config_dataloaders =
  {'batch_size': 8}\<close> the request still fails after \<open>setup(stage='test')\<close>.
\<close>

theorem not_ready_error_counterexample:
  "test_dataloader (snd (setup_stage example_fs (Some ''fit'') example_module)) =
     Inl (AttributeError ''test_dataset'') \<and>
   test_dataloader (snd (setup_stage example_fs (Some ''fit'') example_module)) \<noteq>
     Inl NotReadyError \<and>
   test_dataloader
     (snd (setup_stage example_fs (Some ''test'')
        (snd (setup_stage example_fs (Some ''fit'') batch_cfg_module)))) =
     Inl (TypeError ''batch_size'')"
proof -
  have 1: "test_dataloader (snd (setup_stage example_fs (Some ''fit'') example_module)) =
     Inl (AttributeError ''test_dataset'')"
    using example_after_fit [of "[]"]
    by (simp add: example_module_cfg loader_missing_dataset)
  have 2: "test_dataloader
     (snd (setup_stage example_fs (Some ''test'')
        (snd (setup_stage example_fs (Some ''fit'') batch_cfg_module)))) =
     Inl (TypeError ''batch_size'')"
    by (simp add: cfg_modules example_after_fit_test test_dataloader_def getattr_def
        example_after_setup DataLoader_init_def)
  show ?thesis by (simp add: 1 2)
qed

text \<open>
  C10: when \<open>config_dataloaders\<close> contains the key \<open>batch_size\<close>, no loader method
  returns a loader, and when it contains \<open>shuffle\<close> the train loader method returns none:
  the configured value is never silently overridden.  Once the dataset exists the failure
  is the \<open>TypeError\<close> of a repeated keyword argument, naming a key of
  \<open>config_dataloaders\<close> that the call writes itself (before that, reading the missing
  dataset attribute fails first).
\<close>

theorem duplicate_keyword_raises:
  fixes self :: "'f PCDDataModule"
  shows
    "(''batch_size'' \<in> set (map fst (config_dataloaders self)) \<longrightarrow>
        isl (train_dataloader self) \<and> isl (val_dataloader self) \<and> isl (test_dataloader self) \<and>
        (train_dataset self \<noteq> None \<longrightarrow>
           (\<exists>k. train_dataloader self = Inl (TypeError k) \<and>
                k \<in> set (map fst (config_dataloaders self)) \<and>
                k \<in> {''dataset'', ''batch_size'', ''shuffle''})) \<and>
        (validation_dataset self \<noteq> None \<longrightarrow>
           (\<exists>k. val_dataloader self = Inl (TypeError k) \<and>
                k \<in> set (map fst (config_dataloaders self)) \<and>
                k \<in> {''dataset'', ''batch_size''})) \<and>
        (test_dataset self \<noteq> None \<longrightarrow>
           (\<exists>k. test_dataloader self = Inl (TypeError k) \<and>
                k \<in> set (map fst (config_dataloaders self)) \<and>
                k \<in> {''dataset'', ''batch_size''}))) \<and>
     (''shuffle'' \<in> set (map fst (config_dataloaders self)) \<longrightarrow>
        isl (train_dataloader self) \<and>
        (train_dataset self \<noteq> None \<longrightarrow>
           (\<exists>k. train_dataloader self = Inl (TypeError k) \<and>
                k \<in> set (map fst (config_dataloaders self)) \<and>
                k \<in> {''dataset'', ''batch_size'', ''shuffle''})))"
proof -
  have tr: "\<exists>k'. train_dataloader self = Inl (TypeError k') \<and>
        k' \<in> set (map fst (config_dataloaders self)) \<and> k' \<in> {''dataset'', ''batch_size'', ''shuffle''}"
    if "k \<in> set (map fst (config_dataloaders self))" "k \<in> {''batch_size'', ''shuffle''}"
      "train_dataset self = Some d" for k d
    using DataLoader_init_dup [of k "config_dataloaders self"
        "[(''batch_size'', PyInt (train_batch_size self)), (''shuffle'', PyBool (shuffle self))]" d] that
    by (auto simp: train_dataloader_def getattr_def)
  have va: "\<exists>k'. val_dataloader self = Inl (TypeError k') \<and>
        k' \<in> set (map fst (config_dataloaders self)) \<and> k' \<in> {''dataset'', ''batch_size''}"
    if "''batch_size'' \<in> set (map fst (config_dataloaders self))" "validation_dataset self = Some d" for d
    using DataLoader_init_dup [of "''batch_size''" "config_dataloaders self"
        "[(''batch_size'', PyInt (eval_batch_size self))]" d] that
    by (auto simp: val_dataloader_def getattr_def)
  have te: "\<exists>k'. test_dataloader self = Inl (TypeError k') \<and>
        k' \<in> set (map fst (config_dataloaders self)) \<and> k' \<in> {''dataset'', ''batch_size''}"
    if "''batch_size'' \<in> set (map fst (config_dataloaders self))" "test_dataset self = Some d" for d
    using DataLoader_init_dup [of "''batch_size''" "config_dataloaders self"
        "[(''batch_size'', PyInt (eval_batch_size self))]" d] that
    by (auto simp: test_dataloader_def getattr_def)
  have tr_isl: "isl (train_dataloader self)"
    if "k \<in> set (map fst (config_dataloaders self))" "k \<in> {''batch_size'', ''shuffle''}" for k
  proof (cases "train_dataset self")
    case None
    then show ?thesis by (simp add: loader_missing_dataset)
  next
    case (Some d)
    from tr [OF that Some] show ?thesis by auto
  qed
  have va_isl: "isl (val_dataloader self)"
    if "''batch_size'' \<in> set (map fst (config_dataloaders self))"
  proof (cases "validation_dataset self")
    case None
    then show ?thesis by (simp add: loader_missing_dataset)
  next
    case (Some d)
    from va [OF that Some] show ?thesis by auto
  qed
  have te_isl: "isl (test_dataloader self)"
    if "''batch_size'' \<in> set (map fst (config_dataloaders self))"
  proof (cases "test_dataset self")
    case None
    then show ?thesis by (simp add: loader_missing_dataset)
  next
    case (Some d)
    from te [OF that Some] show ?thesis by auto
  qed
  show ?thesis
    using tr [of "''batch_size''"] tr [of "''shuffle''"] va te
      tr_isl [of "''batch_size''"] tr_isl [of "''shuffle''"] va_isl te_isl
    by (intro conjI impI) auto
qed

theorem duplicate_keyword_raises_witness:
  "train_dataloader (snd (setup_stage example_fs None batch_cfg_module)) =
     Inl (TypeError ''batch_size'') \<and>
   val_dataloader (snd (setup_stage example_fs None batch_cfg_module)) =
     Inl (TypeError ''batch_size'') \<and>
   test_dataloader (snd (setup_stage example_fs None batch_cfg_module)) =
     Inl (TypeError ''batch_size'') \<and>
   train_dataloader (snd (setup_stage example_fs None shuffle_cfg_module)) =
     Inl (TypeError ''shuffle'')"
  using duplicate_keyword_raises [of "snd (setup_stage example_fs None batch_cfg_module)"]
    duplicate_keyword_raises [of "snd (setup_stage example_fs None shuffle_cfg_module)"]
  by (auto simp: cfg_modules example_after_setup)

text \<open>
  C2: building an archive with \<open>shuffle=False\<close> stores the names in input order.  Whenever
  \<open>pcd_from_files\<close> returns, the archive written at \<open>outname\<close> has as its names exactly
  the stems of the input files, in input order, and it returns whenever every input file
  parses.  The same holds for \<open>pcd_from_dir\<close> over the directory's listing, whose entries
  are names of directory entries.
\<close>

theorem unshuffled_archive_keeps_input_order:
  "(\<forall>store'. pcd_from_files parse rnd store fnames outname False = Inr store' \<longrightarrow>
      map_option archive_files (store' outname) = Some (map stem fnames)) \<and>
   ((\<forall>f \<in> set fnames. parse f \<noteq> None) \<longrightarrow>
      (\<exists>a. pcd_from_files parse rnd store fnames outname False = Inr (store(outname \<mapsto> a)) \<and>
           archive_files a = map stem fnames)) \<and>
   ((\<forall>n \<in> set (listdir dirname). entry_name n) \<longrightarrow>
      (\<forall>store'. pcd_from_dir parse rnd listdir store dirname outname False = Inr store' \<longrightarrow>
         map_option archive_files (store' outname) = Some (map stem (listdir dirname)))) \<and>
   ((\<forall>n \<in> set (listdir dirname). entry_name n \<and> parse (os_path_join dirname n) \<noteq> None) \<longrightarrow>
      (\<exists>a. pcd_from_dir parse rnd listdir store dirname outname False = Inr (store(outname \<mapsto> a)) \<and>
           archive_files a = map stem (listdir dirname)))"
proof -
  have files: "map_option archive_files (store' outname) = Some (map stem fs)"
    if "pcd_from_files parse rnd store fs outname False = Inr store'" for store' fs
    using that
    by (auto simp: pcd_from_files_def archive_files_def read_structures_names split: sum.splits)
  have ok: "\<exists>a. pcd_from_files parse rnd store fs outname False = Inr (store(outname \<mapsto> a)) \<and>
           archive_files a = map stem fs"
    if all: "\<forall>f \<in> set fs. parse f \<noteq> None" for fs
  proof -
    obtain ps where ps: "read_structures parse fs = Inr ps"
      using read_structures_ok [OF all] by blast
    then show ?thesis
      using read_structures_names [OF ps]
      by (intro exI [of _ ps]) (simp add: pcd_from_files_def archive_files_def)
  qed
  have stems: "map stem (map (os_path_join dirname) (listdir dirname)) = map stem (listdir dirname)"
    if "\<forall>n \<in> set (listdir dirname). entry_name n"
    using that by (simp add: stem_join)
  show ?thesis
  proof (intro conjI allI impI)
    fix store'
    assume "pcd_from_files parse rnd store fnames outname False = Inr store'"
    then show "map_option archive_files (store' outname) = Some (map stem fnames)"
      by (rule files)
  next
    assume "\<forall>f \<in> set fnames. parse f \<noteq> None"
    then show "\<exists>a. pcd_from_files parse rnd store fnames outname False = Inr (store(outname \<mapsto> a)) \<and>
           archive_files a = map stem fnames"
      by (rule ok)
  next
    fix store'
    assume e: "\<forall>n \<in> set (listdir dirname). entry_name n"
      and "pcd_from_dir parse rnd listdir store dirname outname False = Inr store'"
    then have "pcd_from_files parse rnd store (map (os_path_join dirname) (listdir dirname))
        outname False = Inr store'"
      by (simp add: pcd_from_dir_def)
    from files [OF this] show "map_option archive_files (store' outname) = Some (map stem (listdir dirname))"
      by (simp only: stems [OF e])
  next
    assume a: "\<forall>n \<in> set (listdir dirname). entry_name n \<and> parse (os_path_join dirname n) \<noteq> None"
    then have "\<forall>f \<in> set (map (os_path_join dirname) (listdir dirname)). parse f \<noteq> None"
      by auto
    from ok [OF this] have "\<exists>a. pcd_from_dir parse rnd listdir store dirname outname False =
          Inr (store(outname \<mapsto> a)) \<and>
        archive_files a = map stem (map (os_path_join dirname) (listdir dirname))"
      by (simp only: pcd_from_dir_def)
    moreover have "\<forall>n \<in> set (listdir dirname). entry_name n"
      using a by blast
    ultimately show "\<exists>a. pcd_from_dir parse rnd listdir store dirname outname False = Inr (store(outname \<mapsto> a)) \<and>
           archive_files a = map stem (listdir dirname)"
      by (simp only: stems)
  qed
qed

theorem unshuffled_archive_keeps_input_order_witness:
  "(\<exists>a. pcd_from_files sample_parser sample_rnd Map.empty
          [''tests/samples/IRMOF-1.xyz'', ''tests/samples/Cu-BTC.cif''] ''pcds.npz'' False =
          Inr [''pcds.npz'' \<mapsto> a] \<and>
        archive_files a = [''IRMOF-1'', ''Cu-BTC'']) \<and>
   (\<exists>a. pcd_from_dir sample_parser sample_rnd sample_listdir Map.empty
          ''tests/samples'' ''pcds.npz'' False =
          Inr [''pcds.npz'' \<mapsto> a] \<and>
        archive_files a = [''IRMOF-1'', ''Cu-BTC''])"
  using unshuffled_archive_keeps_input_order
    [of sample_parser sample_rnd Map.empty
      "[''tests/samples/IRMOF-1.xyz'', ''tests/samples/Cu-BTC.cif'']" "''pcds.npz''"
      sample_listdir "''tests/samples''"]
  by (simp add: sample_parser_def sample_stems sample_listdir_def entry_name_def os_path_join_def)

text \<open>
  C3: building an archive with \<open>shuffle=True\<close> stores a permutation of the collected
  pairs, whatever the random source draws: the stored names are, as a multiset, the stems
  of the input files (every input name exactly as often as in the input, so exactly once
  when the stems are distinct), their set is the set of the stems, and there are as many
  as input files; the order may differ from the input order.  The build returns whenever
  every input file parses.
\<close>

theorem shuffled_archive_is_permutation:
  "(\<forall>store'. pcd_from_files parse rnd store fnames outname True = Inr store' \<longrightarrow>
      (\<exists>a ps. store' outname = Some a \<and>
         read_structures parse fnames = Inr ps \<and> mset a = mset ps \<and>
         mset (archive_files a) = mset (map stem fnames) \<and>
         set (archive_files a) = set (map stem fnames) \<and>
         length (archive_files a) = length fnames \<and>
         (distinct (map stem fnames) \<longrightarrow> distinct (archive_files a)))) \<and>
   ((\<forall>f \<in> set fnames. parse f \<noteq> None) \<longrightarrow>
      (\<exists>a. pcd_from_files parse rnd store fnames outname True = Inr (store(outname \<mapsto> a))))"
proof (intro conjI allI impI)
  fix store'
  assume b: "pcd_from_files parse rnd store fnames outname True = Inr store'"
  then obtain ps where ps: "read_structures parse fnames = Inr ps"
    and s: "store' = store(outname \<mapsto> random_permutation rnd ps)"
    by (auto simp: pcd_from_files_def split: sum.splits)
  let ?a = "random_permutation rnd ps"
  have m: "mset (archive_files ?a) = mset (map stem fnames)"
    using read_structures_names [OF ps]
    by (simp add: archive_files_random_permutation) (simp add: archive_files_def)
  have "set (archive_files ?a) = set (map stem fnames)"
    using m by (rule mset_eq_setD)
  moreover have "length (archive_files ?a) = length fnames"
    using mset_eq_length [OF m] by simp
  moreover have "distinct (archive_files ?a)" if "distinct (map stem fnames)"
    using that m by (metis mset_eq_imp_distinct_iff)
  ultimately show "\<exists>a ps. store' outname = Some a \<and>
         read_structures parse fnames = Inr ps \<and> mset a = mset ps \<and>
         mset (archive_files a) = mset (map stem fnames) \<and>
         set (archive_files a) = set (map stem fnames) \<and>
         length (archive_files a) = length fnames \<and>
         (distinct (map stem fnames) \<longrightarrow> distinct (archive_files a))"
    using m ps by (simp add: s mset_random_permutation)
next
  assume "\<forall>f \<in> set fnames. parse f \<noteq> None"
  then obtain ps where "read_structures parse fnames = Inr ps"
    using read_structures_ok by blast
  then show "\<exists>a. pcd_from_files parse rnd store fnames outname True = Inr (store(outname \<mapsto> a))"
    by (auto simp: pcd_from_files_def)
qed

theorem shuffled_archive_is_permutation_witness:
  "\<exists>a. pcd_from_files sample_parser sample_rnd Map.empty
          [''tests/samples/IRMOF-1.xyz'', ''tests/samples/Cu-BTC.cif''] ''pcds.npz'' True =
          Inr [''pcds.npz'' \<mapsto> a] \<and>
        archive_files a = [''Cu-BTC'', ''IRMOF-1''] \<and>
        mset (archive_files a) = {#''IRMOF-1'', ''Cu-BTC''#}"
proof -
  let ?a = "[(''Cu-BTC'', map point_of_atom cubtc_atoms),
             (''IRMOF-1'', map point_of_atom irmof1_atoms)]"
  have perm: "random_permutation sample_rnd [p, q] = [q, p]" for p q :: "string \<times> pcd"
    by (simp add: sample_rnd_def)
  have build: "pcd_from_files sample_parser sample_rnd Map.empty
          [''tests/samples/IRMOF-1.xyz'', ''tests/samples/Cu-BTC.cif''] ''pcds.npz'' True =
          Inr [''pcds.npz'' \<mapsto> ?a]"
    by (simp add: pcd_from_files_def pcd_from_file_def sample_parser_def sample_stems perm
        del: random_permutation.simps)
  from shuffled_archive_is_permutation
      [of sample_parser sample_rnd Map.empty
        "[''tests/samples/IRMOF-1.xyz'', ''tests/samples/Cu-BTC.cif'']" "''pcds.npz''",
       THEN conjunct1, rule_format, OF build]
  obtain b where b: "[''pcds.npz'' \<mapsto> ?a] ''pcds.npz'' = Some b"
    and m: "mset (archive_files b) =
      mset (map stem [''tests/samples/IRMOF-1.xyz'', ''tests/samples/Cu-BTC.cif''])"
    by blast
  from b have "b = ?a" by simp
  with m have m': "mset (archive_files ?a) = {#''IRMOF-1'', ''Cu-BTC''#}"
    by (simp only: sample_stems list.map mset.simps)
  have names: "archive_files ?a = [''Cu-BTC'', ''IRMOF-1'']"
    by (simp add: archive_files_def)
  from build names m' show ?thesis
    by blast
qed

text \<open>
  C6: for the two input files \<open>IRMOF-1.xyz\<close>, holding a structure of 424 atoms with
  atomic number 30 among them, and \<open>Cu-BTC.cif\<close>, holding a structure of 624 atoms
  without atomic number 30, building with \<open>shuffle=False\<close> writes an archive with exactly
  the two entries \<open>IRMOF-1\<close> and \<open>Cu-BTC\<close>, in this order, of shapes \<open>(424, 4)\<close> and
  \<open>(624, 4)\<close>; the last column of each array holds the atomic numbers of its structure,
  so 30 occurs in the last column of the first array and not in that of the second.
\<close>

theorem sample_files_archive:
  assumes "parse ''tests/samples/IRMOF-1.xyz'' = Some irmof"
    and "parse ''tests/samples/Cu-BTC.cif'' = Some cubtc"
    and "length irmof = 424" and "length cubtc = 624"
    and "30 \<in> atom_number ` set irmof" and "30 \<notin> atom_number ` set cubtc"
  shows "\<exists>a pi pc.
    pcd_from_files parse rnd store
      [''tests/samples/IRMOF-1.xyz'', ''tests/samples/Cu-BTC.cif''] outname False =
      Inr (store(outname \<mapsto> a)) \<and>
    archive_files a = [''IRMOF-1'', ''Cu-BTC''] \<and>
    archive_get a ''IRMOF-1'' = Some pi \<and> archive_get a ''Cu-BTC'' = Some pc \<and>
    shape pi = (424, 4) \<and> shape pc = (624, 4) \<and>
    last_column pi = map (\<lambda>a. real (atom_number a)) irmof \<and>
    last_column pc = map (\<lambda>a. real (atom_number a)) cubtc \<and>
    30 \<in> set (last_column pi) \<and> 30 \<notin> set (last_column pc)"
proof -
  let ?pi = "map point_of_atom irmof" and ?pc = "map point_of_atom cubtc"
  let ?a = "[(''IRMOF-1'', ?pi), (''Cu-BTC'', ?pc)]"
  have ne: "irmof \<noteq> []" "cubtc \<noteq> []"
    using assms(3,4) by auto
  have build: "pcd_from_files parse rnd store
      [''tests/samples/IRMOF-1.xyz'', ''tests/samples/Cu-BTC.cif''] outname False =
      Inr (store(outname \<mapsto> ?a))"
    by (simp add: pcd_from_files_def pcd_from_file_def assms(1,2) sample_stems)
  have get: "archive_get ?a ''IRMOF-1'' = Some ?pi" "archive_get ?a ''Cu-BTC'' = Some ?pc"
    by (simp_all add: archive_get_def)
  have shapes: "shape ?pi = (424, 4)" "shape ?pc = (624, 4)"
    using ne assms(3,4) by (simp_all add: shape_points)
  have zn: "30 \<in> set (last_column ?pi)"
    using assms(5) by (auto simp: last_column_points intro!: image_eqI)
  have nozn: "30 \<notin> set (last_column ?pc)"
    using assms(6) by (auto simp: last_column_points)
  have files: "archive_files ?a = [''IRMOF-1'', ''Cu-BTC'']"
    by (simp add: archive_files_def)
  show ?thesis
    using build get shapes zn nozn files last_column_points [of irmof] last_column_points [of cubtc]
    by blast
qed

theorem sample_files_archive_witness:
  "\<exists>a pi pc.
    pcd_from_files sample_parser sample_rnd Map.empty
      [''tests/samples/IRMOF-1.xyz'', ''tests/samples/Cu-BTC.cif''] ''pcds.npz'' False =
      Inr [''pcds.npz'' \<mapsto> a] \<and>
    archive_files a = [''IRMOF-1'', ''Cu-BTC''] \<and>
    archive_get a ''IRMOF-1'' = Some pi \<and> archive_get a ''Cu-BTC'' = Some pc \<and>
    shape pi = (424, 4) \<and> shape pc = (624, 4) \<and>
    30 \<in> set (last_column pi) \<and> 30 \<notin> set (last_column pc)"
proof -
  have p: "sample_parser ''tests/samples/IRMOF-1.xyz'' = Some irmof1_atoms"
    "sample_parser ''tests/samples/Cu-BTC.cif'' = Some cubtc_atoms"
    by (simp_all add: sample_parser_def)
  show ?thesis
    using sample_files_archive [OF p sample_atoms, of sample_rnd Map.empty "''pcds.npz''"]
    by blast
qed

text \<open>
  C8: the module owns three datasets, not four.  With the three manifests readable,
  \<open>setup()\<close> leaves the module as it was but for six attributes: the train, validation
  and test name lists and the train, validation and test datasets.  There is no predict
  dataset among the attributes of the class, and the class defines the loader methods
  \<open>train_dataloader\<close>, \<open>val_dataloader\<close> and \<open>test_dataloader\<close> only.
\<close>

theorem setup_creates_three_datasets:
  fixes self :: "'f PCDDataModule"
  assumes "fs (manifest_path self ''train.json'') = Some tr"
    and "fs (manifest_path self ''validation.json'') = Some va"
    and "fs (manifest_path self ''test.json'') = Some te"
  shows "setup_stage fs None self =
    (Inr (), self
       \<lparr>priv_train_names := Some (slice_upto tr (train_size self)),
        priv_val_names := Some va,
        priv_test_names := Some te,
        train_dataset := Some (PCDDataset_init (slice_upto tr (train_size self))
           (path_to_X self) (path_to_Y self) (index_col self) (labels self)
           (train_transform_x self) (transform_y self)),
        validation_dataset := Some (PCDDataset_init va
           (path_to_X self) (path_to_Y self) (index_col self) (labels self)
           (eval_transform_x self) (transform_y self)),
        test_dataset := Some (PCDDataset_init te
           (path_to_X self) (path_to_Y self) (index_col self) (labels self)
           (eval_transform_x self) (transform_y self))\<rparr>)"
proof -
  let ?s1 = "self\<lparr>priv_train_names := Some (slice_upto tr (train_size self)),
                  priv_val_names := Some va,
                  train_dataset := Some (PCDDataset_init (slice_upto tr (train_size self))
                     (path_to_X self) (path_to_Y self) (index_col self) (labels self)
                     (train_transform_x self) (transform_y self)),
                  validation_dataset := Some (PCDDataset_init va
                     (path_to_X self) (path_to_Y self) (index_col self) (labels self)
                     (eval_transform_x self) (transform_y self))\<rparr>"
  have 1: "setup_fit fs self = (Inr (), ?s1)"
    by (rule setup_fit_ok [of fs self tr va, OF assms(1,2)])
  have "fs (manifest_path ?s1 ''test.json'') = Some te"
    using assms(3) by simp
  from setup_test_ok [of fs ?s1 te, OF this] 1 show ?thesis
    by (simp add: setup_stage_None)
qed

theorem setup_creates_three_datasets_witness:
  "setup_stage example_fs None example_module =
     (Inr (), example_module
       \<lparr>priv_train_names := Some [''a'', ''b''],
        priv_val_names := Some [''d''],
        priv_test_names := Some [''e''],
        train_dataset := Some (PCDDataset_init [''a'', ''b''] ''pcd_data/pcds.npz''
           ''pcd_data/labels.csv'' ''name'' [''y''] None None),
        validation_dataset := Some (PCDDataset_init [''d''] ''pcd_data/pcds.npz''
           ''pcd_data/labels.csv'' ''name'' [''y''] None None),
        test_dataset := Some (PCDDataset_init [''e''] ''pcd_data/pcds.npz''
           ''pcd_data/labels.csv'' ''name'' [''y''] None None)\<rparr>)"
proof -
  have files:
    "example_fs (manifest_path example_module ''train.json'') = Some [''a'', ''b'', ''c'']"
    "example_fs (manifest_path example_module ''validation.json'') = Some [''d'']"
    "example_fs (manifest_path example_module ''test.json'') = Some [''e'']"
    by (simp_all add: ex_paths example_fs_files)
  have fields: "path_to_X example_module = ''pcd_data/pcds.npz''"
    "path_to_Y example_module = ''pcd_data/labels.csv''"
    "index_col example_module = ''name''" "labels example_module = [''y'']"
    "train_transform_x example_module = None"
    "eval_transform_x example_module = None" "transform_y example_module = None"
    by (simp_all add: example_module_def PCDDataModule_init_def)
  show ?thesis
    using setup_creates_three_datasets [of example_fs example_module, OF files]
    by (simp add: fields example_fields slice_upto_def)
qed

end
